theory Spec2Isabelle
  imports Main "HOL-Library.AList"
begin

section \<open>Protocol types (shared/custom_types.py)\<close>

text \<open>
  The wire vocabulary of the A2A task protocol. Each pydantic model is a record, each
  tagged union a datatype. The \<open>metadata\<close> dictionaries, the \<open>kind\<close>/\<open>type\<close>
  literals (fixed by the constructor used) and the wall-clock \<open>timestamp\<close> of a task
  status are left out: no handler of the task manager or of the server reads them.
  Field names are prefixed where two models share a name, since record fields are global.
\<close>

datatype TaskState =
  SUBMITTED | WORKING | INPUT_REQUIRED | AUTH_REQUIRED | COMPLETED
  | CANCELED | REJECTED | FAILED | UNKNOWN

text \<open>A decoded JSON value, as \<open>request.json()\<close> returns it. An object is the decoded
  dictionary, kept as an association list that is read with \<open>map_of\<close>. Numbers with a
  fractional part are not represented.\<close>

datatype json =
  JNull | JBool bool | JInt int | JStr string | JArr "json list" | JObj "(string \<times> json) list"

text \<open>Python exceptions, as values. The string is the exception's message.\<close>

datatype exn =
  JSONDecodeError
  | ValidationError string
  | ValueError string
  | TypeError string
  | AttributeError string
  | KeyError string
  | IndexError string
  | UnboundLocalError string
  | AgentException string
  | TaskNotFound string

fun exn_str :: "exn \<Rightarrow> string" where
  "exn_str JSONDecodeError = ''Expecting value''"
| "exn_str (ValidationError m) = m"
| "exn_str (ValueError m) = m"
| "exn_str (TypeError m) = m"
| "exn_str (AttributeError m) = m"
| "exn_str (KeyError m) = m"
| "exn_str (IndexError m) = m"
| "exn_str (UnboundLocalError m) = m"
| "exn_str (AgentException m) = m"
| "exn_str (TaskNotFound m) = m"

record FileContent =
  fc_name :: "string option"
  fc_mimeType :: "string option"
  fc_bytes :: "string option"
  fc_uri :: "string option"

text \<open>\<open>Part\<close>: the legacy union discriminated by \<open>type\<close>; \<open>A2APart\<close>: the union
  discriminated by \<open>kind\<close>. \<open>A2ATextPart t m\<close> has text \<open>t\<close> and mimeType \<open>m\<close>.\<close>

datatype Part = TextPart string | FilePart FileContent | DataPart json

datatype A2APart = A2ATextPart string "string option" | A2AFilePart FileContent | A2ADataPart json

datatype Role = RoleUser | RoleAgent

record Message =
  msg_role :: Role
  msg_parts :: "Part list"

record A2AMessage =
  a2a_role :: Role
  a2a_parts :: "A2APart list"
  messageId :: string
  taskId :: "string option"
  contextId :: "string option"

text \<open>\<open>TaskStatus.message\<close> is \<open>Optional[Union[Message, A2AMessage]]\<close>.\<close>

datatype AnyMessage = LegacyMessage Message | A2AMsg A2AMessage

record TaskStatus =
  state :: TaskState
  status_message :: "AnyMessage option"

record Artifact =
  artifactId :: string
  art_parts :: "A2APart list"
  art_append :: "bool option"
  lastChunk :: "bool option"

text \<open>\<open>Task\<close> and \<open>A2ATaskResponse\<close> have the same fields; one record serves both.\<close>

record Task =
  task_id :: string
  task_contextId :: string
  task_status :: TaskStatus
  artifacts :: "Artifact list option"
  history :: "AnyMessage list option"

record TaskStatusUpdateEvent =
  sev_taskId :: string
  sev_contextId :: string
  sev_status :: TaskStatus
  final :: bool

record TaskArtifactUpdateEvent =
  aev_taskId :: string
  aev_contextId :: string
  aev_artifact :: Artifact

record PushNotificationConfig =
  url :: string
  token :: "string option"

record TaskSendParams =
  tsp_id :: string
  sessionId :: string
  tsp_message :: Message
  acceptedOutputModes :: "string list option"
  pushNotification :: "PushNotificationConfig option"
  historyLength :: "int option"

text \<open>\<open>JSONRPCMessage.id\<close> is \<open>int | str | None\<close>.\<close>

datatype rpc_id = IdInt int | IdStr string

record JSONRPCError =
  code :: int
  err_message :: string
  err_data :: "json option"

text \<open>What travels on a task's event stream: a status event, an artifact event, or the
  error object that \<open>_run_streaming_agent\<close> enqueues when streaming fails.\<close>

datatype sse_event =
  StatusEvent TaskStatusUpdateEvent
  | ArtifactEvent TaskArtifactUpdateEvent
  | ErrorEvent JSONRPCError

text \<open>\<open>JSONRPCResponse.result\<close> is \<open>Any\<close>; the handlers put a \<open>Task\<close>
  (tasks/send), an \<open>A2ATaskResponse\<close> (message/send) or a stream event there.\<close>

datatype rpc_result = ResultTask Task | ResultA2ATask Task | ResultEvent sse_event

record JSONRPCResponse =
  rsp_id :: "rpc_id option"
  result :: "rpc_result option"
  error :: "JSONRPCError option"

record SendTaskRequest =
  str_id :: "rpc_id option"
  str_params :: TaskSendParams

record A2AMessageSendRequest =
  msr_id :: "rpc_id option"
  msr_message :: A2AMessage

record TaskResubscriptionRequest =
  trr_id :: "rpc_id option"
  trr_task_id :: string

subsection \<open>Constructors that can fail\<close>

text \<open>
  \<open>JSONRPCResponse\<close> and its subclasses (\<open>SendTaskResponse\<close>,
  \<open>A2AMessageSendResponse\<close>, \<open>SendTaskStreamingResponse\<close>) run the model validator
  \<open>validate_result_or_error\<close> on construction. pydantic reports the validator's
  \<open>ValueError\<close> as a \<open>ValidationError\<close>.
\<close>

definition validate_result_or_error :: "JSONRPCResponse \<Rightarrow> exn + JSONRPCResponse" where
  "validate_result_or_error self =
     (if result self \<noteq> None \<and> error self \<noteq> None
        then Inl (ValidationError ''result and error are mutually exclusive'')
      else if result self = None \<and> error self = None
        then Inl (ValidationError ''Either result or error must be present'')
      else Inr self)"

definition JSONRPCResponse_new ::
  "rpc_id option \<Rightarrow> rpc_result option \<Rightarrow> JSONRPCError option \<Rightarrow> exn + JSONRPCResponse" where
  "JSONRPCResponse_new i r e = validate_result_or_error \<lparr>rsp_id = i, result = r, error = e\<rparr>"

text \<open>
  The error classes take one optional argument, \<open>data\<close>:
  \<open>def __init__(self, data: Any = None)\<close>. A call is modelled with its keyword
  arguments as an association list; any keyword other than \<open>data\<close> is Python's
  \<open>TypeError: __init__() got an unexpected keyword argument\<close>.
\<close>

definition only_data :: "(string \<times> json) list \<Rightarrow> bool" where
  "only_data kwargs = list_all (\<lambda>kv. fst kv = ''data'') kwargs"

definition error_init :: "int \<Rightarrow> string \<Rightarrow> (string \<times> json) list \<Rightarrow> exn + JSONRPCError" where
  "error_init c m kwargs =
     (if only_data kwargs
      then Inr \<lparr>code = c, err_message = m, err_data = map_of kwargs ''data''\<rparr>
      else Inl (TypeError ''__init__() got an unexpected keyword argument''))"

definition JSONParseError :: "(string \<times> json) list \<Rightarrow> exn + JSONRPCError" where
  "JSONParseError = error_init (- 32700) ''Invalid JSON payload''"

definition InvalidRequestError :: "(string \<times> json) list \<Rightarrow> exn + JSONRPCError" where
  "InvalidRequestError = error_init (- 32600) ''Invalid JSON-RPC Request''"

definition InvalidParamsError :: "(string \<times> json) list \<Rightarrow> exn + JSONRPCError" where
  "InvalidParamsError = error_init (- 32602) ''Invalid method parameters''"

definition InternalError :: "(string \<times> json) list \<Rightarrow> exn + JSONRPCError" where
  "InternalError = error_init (- 32603) ''Internal server error''"

text \<open>\<open>MethodNotFoundError(method=None)\<close> and \<open>TaskNotFoundError(task_id=None)\<close> take
  an optional string; \<open>ContentTypeNotSupportedError(content_type=None)\<close> likewise.\<close>

definition MethodNotFoundError :: "string option \<Rightarrow> JSONRPCError" where
  "MethodNotFoundError m =
     (case m of
        Some n \<Rightarrow> if n \<noteq> [] then
            \<lparr>code = - 32601, err_message = ''Method not found: '' @ n,
             err_data = Some (JObj [(''method'', JStr n)])\<rparr>
          else \<lparr>code = - 32601, err_message = ''Method not found'', err_data = None\<rparr>
      | None \<Rightarrow> \<lparr>code = - 32601, err_message = ''Method not found'', err_data = None\<rparr>)"

definition TaskNotFoundError :: "string option \<Rightarrow> JSONRPCError" where
  "TaskNotFoundError t =
     (case t of
        Some n \<Rightarrow> if n \<noteq> [] then
            \<lparr>code = - 32001, err_message = ''Task not found: '' @ n,
             err_data = Some (JObj [(''task_id'', JStr n)])\<rparr>
          else \<lparr>code = - 32001, err_message = ''Task not found'', err_data = None\<rparr>
      | None \<Rightarrow> \<lparr>code = - 32001, err_message = ''Task not found'', err_data = None\<rparr>)"

definition ContentTypeNotSupportedError :: "string option \<Rightarrow> JSONRPCError" where
  "ContentTypeNotSupportedError t =
     (case t of
        Some n \<Rightarrow> if n \<noteq> [] then
            \<lparr>code = - 32005, err_message = ''Incompatible content types'',
             err_data = Some (JObj [(''content_type'', JStr n)])\<rparr>
          else \<lparr>code = - 32005, err_message = ''Incompatible content types'', err_data = None\<rparr>
      | None \<Rightarrow> \<lparr>code = - 32005, err_message = ''Incompatible content types'', err_data = None\<rparr>)"

text \<open>
  \<open>TaskStatusUpdateEvent\<close> and \<open>TaskArtifactUpdateEvent\<close> declare \<open>taskId: str\<close> and
  \<open>contextId: str\<close> with no default. The models keep pydantic's default configuration,
  so a keyword that is not a field (such as \<open>id\<close>) is ignored and a missing required
  field is a \<open>ValidationError\<close>. The constructors take the two required fields as
  options: \<open>None\<close> is "keyword not given".
\<close>

definition TaskStatusUpdateEvent_new ::
  "string option \<Rightarrow> string option \<Rightarrow> TaskStatus \<Rightarrow> bool \<Rightarrow> exn + TaskStatusUpdateEvent" where
  "TaskStatusUpdateEvent_new tid cid st fin =
     (case (tid, cid) of
        (Some t, Some c) \<Rightarrow>
          Inr \<lparr>sev_taskId = t, sev_contextId = c, sev_status = st, final = fin\<rparr>
      | _ \<Rightarrow> Inl (ValidationError ''Field required''))"

definition TaskArtifactUpdateEvent_new ::
  "string option \<Rightarrow> string option \<Rightarrow> Artifact \<Rightarrow> exn + TaskArtifactUpdateEvent" where
  "TaskArtifactUpdateEvent_new tid cid a =
     (case (tid, cid) of
        (Some t, Some c) \<Rightarrow> Inr \<lparr>aev_taskId = t, aev_contextId = c, aev_artifact = a\<rparr>
      | _ \<Rightarrow> Inl (ValidationError ''Field required''))"

section \<open>The task manager's surroundings\<close>

text \<open>
  The agent, the push-notification verifier, the modality check of \<open>shared/utils.py\<close>,
  the uuid generator and pydantic's \<open>A2ARequest.validate_python\<close> are outside the
  code under study; they are parameters. An agent answer is a dictionary: a key that may
  be absent is an option. \<open>stream\<close> gives the chunks the agent yields and, when the
  generator then raises, the exception's message.
\<close>

record agent_response =
  is_task_complete :: "bool option"
  require_user_input :: "bool option"
  content :: "string option"

datatype agent_outcome = AgentRaises string | AgentReturns agent_response

record stream_item =
  item_is_task_complete :: bool
  item_require_user_input :: bool
  item_content :: string

record env =
  SUPPORTED_CONTENT_TYPES :: "string list"
  invoke_async :: "string \<Rightarrow> string \<Rightarrow> agent_outcome"
  stream :: "string \<Rightarrow> string \<Rightarrow> stream_item list \<times> string option"
  verify_push_notification_url :: "string \<Rightarrow> bool"
  are_modalities_compatible :: "string list option \<Rightarrow> string list \<Rightarrow> bool"
  uuid4 :: "nat \<Rightarrow> string"
  validate_python :: "json \<Rightarrow> exn + unit"

text \<open>
  The effects of a handler that a caller can observe from outside, in the order they
  happen: a task created or extended by \<open>upsert_task\<close>, a status written by
  \<open>update_store\<close>, a call of the agent with its query and session id. The journal is
  only written, never read, by the handlers.
\<close>

datatype effect =
  Upserted string
  | StatusWritten string TaskState
  | AgentInvoked string string

text \<open>
  The state of an \<open>InMemoryTaskManager\<close>: the task dictionary, the push-notification
  dictionary, the subscribers of each streaming task (handles of queues) and the queues
  themselves, the notifications sent so far (url and task snapshot), the number of uuids
  drawn, and the journal.
\<close>

record manager =
  tasks :: "(string \<times> Task) list"
  push_notification_infos :: "(string \<times> PushNotificationConfig) list"
  task_sse_subscribers :: "(string \<times> nat list) list"
  sse_queues :: "(nat \<times> sse_event list) list"
  sent_notifications :: "(string \<times> Task) list"
  uuid_count :: nat
  journal :: "effect list"

text \<open>Python's \<open>x or y\<close> on an optional string: \<open>None\<close> and the empty string are falsy.\<close>

definition str_or :: "string option \<Rightarrow> string \<Rightarrow> string" where
  "str_or x y = (case x of None \<Rightarrow> y | Some s \<Rightarrow> if s = [] then y else s)"

subsection \<open>TaskStore, SSEHub and PushNotificationRegistry (shared/abc_task_manager.py)\<close>

text \<open>Modelled from the spec: \<open>upsert_task\<close> of \<open>InMemoryTaskManager\<close>, whose file
  is not among the sources. Spec 4.1, upsert: creates the task if absent
  (state SUBMITTED, history is the initial message alone); if present, appends the message
  to history and leaves the state untouched. The new task's context is the request's
  session.\<close>

definition upsert_task :: "TaskSendParams \<Rightarrow> manager \<Rightarrow> Task \<times> manager" where
  "upsert_task p s =
     (let t = (case map_of (tasks s) (tsp_id p) of
                 None \<Rightarrow>
                   \<lparr>task_id = tsp_id p, task_contextId = sessionId p,
                    task_status = \<lparr>state = SUBMITTED, status_message = None\<rparr>,
                    artifacts = None,
                    history = Some [LegacyMessage (tsp_message p)]\<rparr>
               | Some t0 \<Rightarrow>
                   t0\<lparr>history :=
                      Some ((case history t0 of None \<Rightarrow> [] | Some h \<Rightarrow> h)
                            @ [LegacyMessage (tsp_message p)])\<rparr>)
      in (t, s\<lparr>tasks := AList.update (tsp_id p) t (tasks s),
                journal := journal s @ [Upserted (tsp_id p)]\<rparr>))"

text \<open>Modelled from the spec: the aggregation rule of artifacts (spec 3): an artifact
  with \<open>append = true\<close> is concatenated onto the artifact of the same id seen before;
  any other artifact is added at the end.\<close>

fun add_artifact :: "Artifact list \<Rightarrow> Artifact \<Rightarrow> Artifact list" where
  "add_artifact [] a = [a]"
| "add_artifact (b # bs) a =
     (if art_append a = Some True \<and> artifactId b = artifactId a
      then b\<lparr>art_parts := art_parts b @ art_parts a, lastChunk := lastChunk a\<rparr> # bs
      else b # add_artifact bs a)"

text \<open>Modelled from the spec: \<open>update_store\<close> of \<open>InMemoryTaskManager\<close>. Spec 4.1,
  updateState: replaces the status, appends the new artifacts to the task's artifacts,
  returns the new snapshot; fails with TaskNotFound if the id is unknown.\<close>

definition update_store ::
  "string \<Rightarrow> TaskStatus \<Rightarrow> Artifact list option \<Rightarrow> manager \<Rightarrow> (exn + Task) \<times> manager" where
  "update_store tid st arts s =
     (case map_of (tasks s) tid of
        None \<Rightarrow> (Inl (TaskNotFound tid), s)
      | Some t0 \<Rightarrow>
          (let t = t0\<lparr>task_status := st,
                      artifacts :=
                        (case arts of
                           None \<Rightarrow> artifacts t0
                         | Some new \<Rightarrow>
                             Some (foldl add_artifact
                                     (case artifacts t0 of None \<Rightarrow> [] | Some old \<Rightarrow> old) new))\<rparr>
           in (Inr t, s\<lparr>tasks := AList.update tid t (tasks s),
                        journal := journal s @ [StatusWritten tid (state st)]\<rparr>)))"

text \<open>Modelled from the spec: \<open>append_task_history\<close> of \<open>InMemoryTaskManager\<close>.
  Spec 4.1, get: if a history limit is given, the returned history is truncated to the
  most recent N entries; the stored history is not touched.\<close>

definition append_task_history :: "Task \<Rightarrow> int option \<Rightarrow> Task" where
  "append_task_history t n =
     (case n of
        None \<Rightarrow> t
      | Some k \<Rightarrow>
          t\<lparr>history := map_option (\<lambda>h. drop (length h - nat k) h) (history t)\<rparr>)"

text \<open>Modelled from the spec: the registry's lookup (spec 4.3, get: the config or
  absent) and the base class's \<open>set_push_notification_info\<close>, which stores the
  configuration under the task id.\<close>

definition get_push_notification_info :: "string \<Rightarrow> manager \<Rightarrow> PushNotificationConfig option" where
  "get_push_notification_info tid s = map_of (push_notification_infos s) tid"

definition has_push_notification_info :: "string \<Rightarrow> manager \<Rightarrow> bool" where
  "has_push_notification_info tid s = (get_push_notification_info tid s \<noteq> None)"

definition super_set_push_notification_info ::
  "string \<Rightarrow> PushNotificationConfig \<Rightarrow> manager \<Rightarrow> manager" where
  "super_set_push_notification_info tid cfg s =
     s\<lparr>push_notification_infos := AList.update tid cfg (push_notification_infos s)\<rparr>"

text \<open>Modelled from the spec: \<open>send_push_notification\<close> of
  \<open>PushNotificationSenderAuth\<close> (spec 4.3, notify): a best-effort delivery of the task
  snapshot to the registered URL; a failure is logged and never reaches the caller.\<close>

definition send_push_notification :: "string \<Rightarrow> Task \<Rightarrow> manager \<Rightarrow> manager" where
  "send_push_notification u t s = s\<lparr>sent_notifications := sent_notifications s @ [(u, t)]\<rparr>"

text \<open>Modelled from the spec: \<open>setup_sse_consumer\<close> (spec 4.2, subscribe, and 4.5,
  tasks/resubscribe): attaches a new consumer queue to the task; a resubscription fails
  with TaskNotFound if the task is not registered as streaming (unknown, or finalized and
  discarded).\<close>

definition setup_sse_consumer :: "string \<Rightarrow> bool \<Rightarrow> manager \<Rightarrow> (exn + nat) \<times> manager" where
  "setup_sse_consumer tid is_resubscribe s =
     (case map_of (task_sse_subscribers s) tid of
        None \<Rightarrow>
          if is_resubscribe then (Inl (TaskNotFound tid), s)
          else (let q = length (sse_queues s)
                in (Inr q, s\<lparr>task_sse_subscribers := AList.update tid [q] (task_sse_subscribers s),
                             sse_queues := sse_queues s @ [(q, [])]\<rparr>))
      | Some hs \<Rightarrow>
          (let q = length (sse_queues s)
           in (Inr q, s\<lparr>task_sse_subscribers := AList.update tid (hs @ [q]) (task_sse_subscribers s),
                        sse_queues := sse_queues s @ [(q, [])]\<rparr>)))"

fun is_final :: "sse_event \<Rightarrow> bool" where
  "is_final (StatusEvent e) = final e"
| "is_final (ArtifactEvent e) = False"
| "is_final (ErrorEvent e) = False"

text \<open>Modelled from the spec: \<open>enqueue_events_for_sse\<close> (spec 4.2, publish): the event
  is enqueued for every consumer attached to the task; after a final event the hub
  discards the task's registration.\<close>

definition enqueue_events_for_sse :: "string \<Rightarrow> sse_event \<Rightarrow> manager \<Rightarrow> manager" where
  "enqueue_events_for_sse tid ev s =
     (case map_of (task_sse_subscribers s) tid of
        None \<Rightarrow> s
      | Some hs \<Rightarrow>
          s\<lparr>sse_queues :=
               map (\<lambda>q. if fst q \<in> set hs then (fst q, snd q @ [ev]) else q) (sse_queues s),
            task_sse_subscribers :=
               (if is_final ev then AList.delete tid (task_sse_subscribers s)
                else task_sse_subscribers s)\<rparr>)"

text \<open>Modelled from the spec: \<open>new_incompatible_types_error\<close> of \<open>shared/utils.py\<close>:
  the response that carries the content-type error (code -32005, spec 6) under the
  request's id.\<close>

definition new_incompatible_types_error :: "rpc_id option \<Rightarrow> exn + JSONRPCResponse" where
  "new_incompatible_types_error i = JSONRPCResponse_new i None (Some (ContentTypeNotSupportedError None))"

section \<open>The task manager (agents/claude_cli/base_cli_task_manager.py)\<close>

text \<open>
  Every handler takes the manager's state and returns its outcome with the state it
  leaves: \<open>Inl e\<close> is the exception \<open>e\<close> leaving the handler. A default
  \<open>messageId\<close> or \<open>artifactId\<close> draws a uuid and keeps its first twelve characters.
\<close>

definition draw_uuid :: "env \<Rightarrow> manager \<Rightarrow> string \<times> manager" where
  "draw_uuid ev s = (uuid4 ev (uuid_count s), s\<lparr>uuid_count := Suc (uuid_count s)\<rparr>)"

text \<open>\<open>A2AMessage(role="agent", parts=parts)\<close>, with the default message id.\<close>

definition agent_message :: "env \<Rightarrow> A2APart list \<Rightarrow> manager \<Rightarrow> A2AMessage \<times> manager" where
  "agent_message ev ps s =
     (let (u, s1) = draw_uuid ev s
      in (\<lparr>a2a_role = RoleAgent, a2a_parts = ps, messageId = ''msg_'' @ take 12 u,
           taskId = None, contextId = None\<rparr>, s1))"

text \<open>\<open>Artifact(parts=parts, append=...)\<close>, with the default artifact id.\<close>

definition default_artifact ::
  "env \<Rightarrow> A2APart list \<Rightarrow> bool option \<Rightarrow> manager \<Rightarrow> Artifact \<times> manager" where
  "default_artifact ev ps app s =
     (let (u, s1) = draw_uuid ev s
      in (\<lparr>artifactId = ''artifact_'' @ take 12 u, art_parts = ps, art_append = app,
           lastChunk = None\<rparr>, s1))"

text \<open>\<open>_get_user_query\<close>: the text of the first part; \<open>parts[0]\<close> of an empty list
  is an \<open>IndexError\<close>.\<close>

definition get_user_query :: "TaskSendParams \<Rightarrow> exn + string" where
  "get_user_query task_send_params =
     (case msg_parts (tsp_message task_send_params) of
        [] \<Rightarrow> Inl (IndexError ''list index out of range'')
      | part # rest \<Rightarrow>
          (case part of
             TextPart t \<Rightarrow> Inr t
           | FilePart f \<Rightarrow> Inl (ValueError ''Only text parts are supported'')
           | DataPart d \<Rightarrow> Inl (ValueError ''Only text parts are supported'')))"

text \<open>\<open>_validate_request\<close>: \<open>Inr None\<close> is "no objection". The second check builds
  its error with \<open>InvalidParamsError(message=...)\<close>.\<close>

definition validate_request ::
  "env \<Rightarrow> rpc_id option \<Rightarrow> TaskSendParams \<Rightarrow> exn + JSONRPCResponse option" where
  "validate_request ev request_id task_send_params =
     (if \<not> are_modalities_compatible ev (acceptedOutputModes task_send_params)
              (SUPPORTED_CONTENT_TYPES ev)
      then (case new_incompatible_types_error request_id of
              Inl e \<Rightarrow> Inl e
            | Inr r \<Rightarrow> Inr (Some r))
      else (case pushNotification task_send_params of
              None \<Rightarrow> Inr None
            | Some cfg \<Rightarrow>
                if url cfg = []
                then (case InvalidParamsError
                             [(''message'', JStr ''Push notification URL is missing'')] of
                        Inl e \<Rightarrow> Inl e
                      | Inr err \<Rightarrow>
                          (case JSONRPCResponse_new request_id None (Some err) of
                             Inl e \<Rightarrow> Inl e
                           | Inr r \<Rightarrow> Inr (Some r)))
                else Inr None))"

text \<open>\<open>set_push_notification_info\<close>: the URL is verified by a challenge request before
  anything is stored.\<close>

definition set_push_notification_info ::
  "env \<Rightarrow> string \<Rightarrow> PushNotificationConfig \<Rightarrow> manager \<Rightarrow> bool \<times> manager" where
  "set_push_notification_info ev tid push_notification_config s =
     (let is_verified = verify_push_notification_url ev (url push_notification_config)
      in if \<not> is_verified then (False, s)
         else (True, super_set_push_notification_info tid push_notification_config s))"

definition send_task_notification :: "Task \<Rightarrow> manager \<Rightarrow> manager" where
  "send_task_notification task s =
     (if \<not> has_push_notification_info (task_id task) s then s
      else (case get_push_notification_info (task_id task) s of
              None \<Rightarrow> s
            | Some push_info \<Rightarrow> send_push_notification (url push_info) task s))"

text \<open>\<open>_process_agent_response\<close>: \<open>agent_response["content"]\<close> and
  \<open>agent_response["require_user_input"]\<close> are \<open>KeyError\<close>s on a missing key. The
  task is COMPLETED whenever no user input is required.\<close>

definition process_agent_response ::
  "env \<Rightarrow> SendTaskRequest \<Rightarrow> agent_response \<Rightarrow> manager \<Rightarrow> (exn + JSONRPCResponse) \<times> manager" where
  "process_agent_response ev request agent_resp s =
     (let task_send_params = str_params request;
          tid = tsp_id task_send_params;
          history_length = historyLength task_send_params
      in case content agent_resp of
           None \<Rightarrow> (Inl (KeyError ''content''), s)
         | Some c \<Rightarrow>
            (let parts = [A2ATextPart c (Some ''text/plain'')]
             in case require_user_input agent_resp of
                  None \<Rightarrow> (Inl (KeyError ''require_user_input''), s)
                | Some rui \<Rightarrow>
                   (let (task_status, artifact, s1) =
                          (if rui
                           then (let (m, s') = agent_message ev parts s
                                 in (\<lparr>state = INPUT_REQUIRED, status_message = Some (A2AMsg m)\<rparr>,
                                     None, s'))
                           else (let (a, s') = default_artifact ev parts None s
                                 in (\<lparr>state = COMPLETED, status_message = None\<rparr>,
                                     Some a, s')))
                    in case update_store tid task_status
                              (case artifact of None \<Rightarrow> None | Some a \<Rightarrow> Some [a]) s1 of
                         (Inl e, s2) \<Rightarrow> (Inl e, s2)
                       | (Inr task, s2) \<Rightarrow>
                           (let task_result = append_task_history task history_length;
                                s3 = send_task_notification task s2
                            in (JSONRPCResponse_new (str_id request) (Some (ResultTask task_result)) None,
                                s3)))))"

text \<open>\<open>on_send_task\<close>, lines 280 to 293: upsert, WORKING, notification, query, the
  agent's call. An exception of the agent is logged and raised again as a
  \<open>ValueError\<close>.\<close>

definition run_send_task ::
  "env \<Rightarrow> SendTaskRequest \<Rightarrow> manager \<Rightarrow> (exn + JSONRPCResponse) \<times> manager" where
  "run_send_task ev request s =
     (let (t0, s1) = upsert_task (str_params request) s
      in case update_store (tsp_id (str_params request))
                \<lparr>state = WORKING, status_message = None\<rparr> None s1 of
           (Inl e, s2) \<Rightarrow> (Inl e, s2)
         | (Inr task, s2) \<Rightarrow>
            (let s3 = send_task_notification task s2;
                 task_send_params = str_params request
             in case get_user_query task_send_params of
                  Inl e \<Rightarrow> (Inl e, s3)
                | Inr query \<Rightarrow>
                   (let s4 = s3\<lparr>journal := journal s3
                                   @ [AgentInvoked query (sessionId task_send_params)]\<rparr>
                    in case invoke_async ev query (sessionId task_send_params) of
                         AgentRaises m \<Rightarrow> (Inl (ValueError (''Error invoking agent: '' @ m)), s4)
                       | AgentReturns agent_resp \<Rightarrow>
                           process_agent_response ev request agent_resp s4)))"

text \<open>\<open>on_send_task\<close>: validation, then the push-notification registration (lines 269
  to 278, whose failure answer is built with \<open>InvalidParamsError(message=...)\<close>), then
  the rest.\<close>

definition on_send_task ::
  "env \<Rightarrow> SendTaskRequest \<Rightarrow> manager \<Rightarrow> (exn + JSONRPCResponse) \<times> manager" where
  "on_send_task ev request s =
     (case validate_request ev (str_id request) (str_params request) of
        Inl e \<Rightarrow> (Inl e, s)
      | Inr (Some validation_error) \<Rightarrow>
          (JSONRPCResponse_new (str_id request) None (error validation_error), s)
      | Inr None \<Rightarrow>
          (case pushNotification (str_params request) of
             None \<Rightarrow> run_send_task ev request s
           | Some cfg \<Rightarrow>
              (let (ok, s1) = set_push_notification_info ev (tsp_id (str_params request)) cfg s
               in if \<not> ok
                  then (case InvalidParamsError
                               [(''message'', JStr ''Push notification URL is invalid'')] of
                          Inl e \<Rightarrow> (Inl e, s1)
                        | Inr err \<Rightarrow> (JSONRPCResponse_new (str_id request) None (Some err), s1))
                  else run_send_task ev request s1)))"

subsection \<open>message/send\<close>

text \<open>
  The class defines \<open>on_a2a_message_send\<close> twice (lines 96 and 295). The second
  definition replaces the first when the class body is run, so the second one is the
  handler. It reads the text parts, calls the agent and answers with a task it builds on
  the spot; it never touches the task dictionary.
\<close>

definition extract_text :: "A2APart list \<Rightarrow> string" where
  "extract_text ps =
     foldl (\<lambda>message_text part.
              case part of
                A2ATextPart t m \<Rightarrow> message_text @ t
              | A2AFilePart f \<Rightarrow> message_text
              | A2ADataPart d \<Rightarrow> message_text) [] ps"

text \<open>\<open>x or str(uuid.uuid4())\<close>: the uuid is drawn only when \<open>x\<close> is falsy.\<close>

definition or_uuid :: "env \<Rightarrow> string option \<Rightarrow> manager \<Rightarrow> string \<times> manager" where
  "or_uuid ev x s =
     (case x of
        None \<Rightarrow> draw_uuid ev s
      | Some v \<Rightarrow> if v = [] then draw_uuid ev s else (v, s))"

text \<open>The \<open>except Exception as e\<close> branch (lines 363 to 381): a FAILED task as the
  result. The statements after its \<open>return\<close> are never run.\<close>

definition message_send_failed ::
  "A2AMessageSendRequest \<Rightarrow> string \<Rightarrow> string \<Rightarrow> string \<Rightarrow> exn + JSONRPCResponse" where
  "message_send_failed request tid session_id e_str =
     JSONRPCResponse_new (msr_id request)
       (Some (ResultA2ATask
          \<lparr>task_id = tid, task_contextId = session_id,
           task_status =
             \<lparr>state = FAILED,
              status_message =
                Some (LegacyMessage
                        \<lparr>msg_role = RoleAgent, msg_parts = [TextPart (''Error: '' @ e_str)]\<rparr>)\<rparr>,
           artifacts = None, history = None\<rparr>))
       None"

definition on_a2a_message_send ::
  "env \<Rightarrow> A2AMessageSendRequest \<Rightarrow> manager \<Rightarrow> (exn + JSONRPCResponse) \<times> manager" where
  "on_a2a_message_send ev request s =
     (let message_text = extract_text (a2a_parts (msr_message request));
          (tid, s1) = or_uuid ev (taskId (msr_message request)) s;
          (session_id, s2) = or_uuid ev (contextId (msr_message request)) s1;
          s3 = s2\<lparr>journal := journal s2 @ [AgentInvoked message_text session_id]\<rparr>
      in case invoke_async ev message_text session_id of
           AgentRaises m \<Rightarrow> (message_send_failed request tid session_id m, s3)
         | AgentReturns agent_resp \<Rightarrow>
            if (case is_task_complete agent_resp of None \<Rightarrow> False | Some b \<Rightarrow> b)
            then (let c = (case content agent_resp of None \<Rightarrow> ''Task completed'' | Some c \<Rightarrow> c);
                      (u, s4) = draw_uuid ev s3;
                      artifact = \<lparr>artifactId = u,
                                  art_parts = [A2ATextPart c (Some ''text/plain'')],
                                  art_append = None, lastChunk = None\<rparr>;
                      task_response =
                        \<lparr>task_id = tid, task_contextId = session_id,
                         task_status = \<lparr>state = COMPLETED, status_message = None\<rparr>,
                         artifacts = Some [artifact], history = None\<rparr>
                  in case JSONRPCResponse_new (msr_id request)
                            (Some (ResultA2ATask task_response)) None of
                       Inl e \<Rightarrow> (message_send_failed request tid session_id (exn_str e), s4)
                     | Inr r \<Rightarrow> (Inr r, s4))
            else (let c = (case content agent_resp of None \<Rightarrow> ''Task in progress'' | Some c \<Rightarrow> c);
                      task_response =
                        \<lparr>task_id = tid, task_contextId = session_id,
                         task_status =
                           \<lparr>state = INPUT_REQUIRED,
                            status_message =
                              Some (LegacyMessage
                                      \<lparr>msg_role = RoleAgent, msg_parts = [TextPart c]\<rparr>)\<rparr>,
                         artifacts = None, history = None\<rparr>
                  in case JSONRPCResponse_new (msr_id request)
                            (Some (ResultA2ATask task_response)) None of
                       Inl e \<Rightarrow> (message_send_failed request tid session_id (exn_str e), s3)
                     | Inr r \<Rightarrow> (Inr r, s3)))"

subsection \<open>Streaming\<close>

text \<open>
  The body of the \<open>async for\<close> loop of \<open>_run_streaming_agent\<close>, one chunk at a time.
  Both event constructors are called with \<open>id=task_send_params.id\<close>: neither
  \<open>taskId\<close> nor \<open>contextId\<close> is given.
\<close>

definition publish_artifact ::
  "TaskSendParams \<Rightarrow> Artifact option \<Rightarrow> manager \<Rightarrow> (exn + unit) \<times> manager" where
  "publish_artifact p artifact s =
     (case artifact of
        None \<Rightarrow> (Inr (), s)
      | Some a \<Rightarrow>
          (case TaskArtifactUpdateEvent_new None None a of
             Inl e \<Rightarrow> (Inl e, s)
           | Inr task_artifact_update_event \<Rightarrow>
               (Inr (), enqueue_events_for_sse (tsp_id p)
                          (ArtifactEvent task_artifact_update_event) s)))"

fun stream_loop ::
  "env \<Rightarrow> TaskSendParams \<Rightarrow> stream_item list \<Rightarrow> manager \<Rightarrow> (exn + unit) \<times> manager" where
  "stream_loop ev p [] s = (Inr (), s)"
| "stream_loop ev p (item # rest) s =
     (let parts = [A2ATextPart (item_content item) (Some ''text/plain'')];
          (task_state, message, artifact, end_stream, s1) =
            (if \<not> item_is_task_complete item \<and> \<not> item_require_user_input item
             then (let (m, s') = agent_message ev parts s
                   in (WORKING, Some (A2AMsg m), None, False, s'))
             else if item_require_user_input item
             then (let (m, s') = agent_message ev parts s
                   in (INPUT_REQUIRED, Some (A2AMsg m), None, True, s'))
             else (let (a, s') = default_artifact ev parts (Some False) s
                   in (COMPLETED, None, Some a, True, s')));
          task_status = \<lparr>state = task_state, status_message = message\<rparr>
      in case update_store (tsp_id p) task_status
                (case artifact of None \<Rightarrow> None | Some a \<Rightarrow> Some [a]) s1 of
           (Inl e, s2) \<Rightarrow> (Inl e, s2)
         | (Inr latest_task, s2) \<Rightarrow>
            (case publish_artifact p artifact (send_task_notification latest_task s2) of
               (Inl e, s3) \<Rightarrow> (Inl e, s3)
             | (Inr u, s3) \<Rightarrow>
                (case TaskStatusUpdateEvent_new None None task_status end_stream of
                   Inl e \<Rightarrow> (Inl e, s3)
                 | Inr task_update_event \<Rightarrow>
                     stream_loop ev p rest
                       (enqueue_events_for_sse (tsp_id p) (StatusEvent task_update_event) s3))))"

text \<open>\<open>_run_streaming_agent\<close>: the query is read outside the \<open>try\<close>. Whatever the
  loop or the agent's generator raises is caught, and the handler enqueues
  \<open>InternalError(message=...)\<close>.\<close>

definition run_streaming_agent ::
  "env \<Rightarrow> SendTaskRequest \<Rightarrow> manager \<Rightarrow> (exn + unit) \<times> manager" where
  "run_streaming_agent ev request s =
     (let task_send_params = str_params request
      in case get_user_query task_send_params of
           Inl e \<Rightarrow> (Inl e, s)
         | Inr query \<Rightarrow>
            (let s0 = s\<lparr>journal := journal s
                            @ [AgentInvoked query (sessionId task_send_params)]\<rparr>;
                 (items, fails) = stream ev query (sessionId task_send_params);
                 (r, s1) = stream_loop ev task_send_params items s0;
                 raised = (case r of
                             Inl e \<Rightarrow> Some e
                           | Inr u \<Rightarrow> map_option AgentException fails)
             in case raised of
                  None \<Rightarrow> (Inr (), s1)
                | Some e \<Rightarrow>
                   (case InternalError
                           [(''message'',
                             JStr (''An error occurred while streaming the response: ''
                                   @ exn_str e))] of
                      Inl e' \<Rightarrow> (Inl e', s1)
                    | Inr err \<Rightarrow>
                        (Inr (), enqueue_events_for_sse (tsp_id task_send_params)
                                   (ErrorEvent err) s1))))"

text \<open>What a streaming handler hands to the server: a plain response, or the stream
  that \<open>dequeue_events_for_sse\<close> reads from the consumer's queue.\<close>

datatype handler_result = Reply JSONRPCResponse | EventStream nat

definition internal_error_reply ::
  "rpc_id option \<Rightarrow> string \<Rightarrow> exn + handler_result" where
  "internal_error_reply request_id m =
     (case InternalError [(''message'', JStr m)] of
        Inl e \<Rightarrow> Inl e
      | Inr err \<Rightarrow>
          (case JSONRPCResponse_new request_id None (Some err) of
             Inl e \<Rightarrow> Inl e
           | Inr r \<Rightarrow> Inr (Reply r)))"

text \<open>\<open>on_send_task_subscribe\<close>, up to the moment the producer is started in the
  background. The task is upserted before the push-notification URL is verified.\<close>

definition on_send_task_subscribe ::
  "env \<Rightarrow> SendTaskRequest \<Rightarrow> manager \<Rightarrow> (exn + handler_result) \<times> manager" where
  "on_send_task_subscribe ev request s =
     (let failed = internal_error_reply (str_id request)
                     ''An error occurred while streaming the response''
      in case validate_request ev (str_id request) (str_params request) of
           Inl e \<Rightarrow> (failed, s)
         | Inr (Some err) \<Rightarrow> (Inr (Reply err), s)
         | Inr None \<Rightarrow>
            (let (t0, s1) = upsert_task (str_params request) s;
                 (rejected, s2) =
                    (case pushNotification (str_params request) of
                       None \<Rightarrow> (False, s1)
                     | Some cfg \<Rightarrow>
                         (let (ok, s') = set_push_notification_info ev
                                           (tsp_id (str_params request)) cfg s1
                          in (\<not> ok, s')))
             in if rejected
                then (case InvalidParamsError
                             [(''message'', JStr ''Push notification URL is invalid'')] of
                        Inl e \<Rightarrow> (failed, s2)
                      | Inr err \<Rightarrow>
                          (case JSONRPCResponse_new (str_id request) None (Some err) of
                             Inl e \<Rightarrow> (failed, s2)
                           | Inr r \<Rightarrow> (Inr (Reply r), s2)))
                else (case setup_sse_consumer (tsp_id (str_params request)) False s2 of
                        (Inl e, s3) \<Rightarrow> (failed, s3)
                      | (Inr sse_event_queue, s3) \<Rightarrow> (Inr (EventStream sse_event_queue), s3))))"

text \<open>\<open>on_resubscribe_to_task\<close>: a failure of \<open>setup_sse_consumer\<close> is caught, and
  the answer is built with \<open>InternalError(message=...)\<close>.\<close>

definition on_resubscribe_to_task ::
  "TaskResubscriptionRequest \<Rightarrow> manager \<Rightarrow> (exn + handler_result) \<times> manager" where
  "on_resubscribe_to_task request s =
     (case setup_sse_consumer (trr_task_id request) True s of
        (Inr sse_event_queue, s1) \<Rightarrow> (Inr (EventStream sse_event_queue), s1)
      | (Inl e, s1) \<Rightarrow>
          (internal_error_reply (trr_id request)
             (''An error occurred while reconnecting to stream: '' @ exn_str e), s1))"

section \<open>The server (shared/server.py)\<close>

text \<open>
  The body of the POST request either is not JSON (\<open>request.json()\<close> raises
  \<open>JSONDecodeError\<close>) or decodes to a JSON value.
\<close>

datatype http_body = NotJSON | Decoded json

text \<open>
  What \<open>_process_request\<close> gives back: a JSON response with its status code, an event
  stream, or nothing, when an exception leaves the function and the web framework
  answers in its place.
\<close>

datatype http_reply =
  JSONResponse JSONRPCResponse nat
  | EventSourceResponse nat
  | Uncaught exn

text \<open>\<open>x.get(k, d)\<close>: only a dictionary has \<open>get\<close>.\<close>

definition dict_get :: "json \<Rightarrow> string \<Rightarrow> json \<Rightarrow> exn + json" where
  "dict_get x k d =
     (case x of
        JObj kvs \<Rightarrow> Inr (case map_of kvs k of None \<Rightarrow> d | Some v \<Rightarrow> v)
      | _ \<Rightarrow> Inl (AttributeError ''object has no attribute get''))"

text \<open>\<open>x.keys()\<close>, whose value is only logged.\<close>

definition dict_keys :: "json \<Rightarrow> exn + string list" where
  "dict_keys x =
     (case x of
        JObj kvs \<Rightarrow> Inr (remdups (map fst kvs))
      | _ \<Rightarrow> Inl (AttributeError ''object has no attribute keys''))"

text \<open>\<open>for part_data in x\<close>: a list gives its elements, a dictionary its keys, a string
  its characters; nothing else can be iterated.\<close>

definition py_iter :: "json \<Rightarrow> exn + json list" where
  "py_iter x =
     (case x of
        JArr xs \<Rightarrow> Inr xs
      | JObj kvs \<Rightarrow> Inr (map JStr (remdups (map fst kvs)))
      | JStr cs \<Rightarrow> Inr (map (\<lambda>c. JStr [c]) cs)
      | _ \<Rightarrow> Inl (TypeError ''object is not iterable''))"

text \<open>pydantic's validation of the fields that the manual parse fills: a \<open>str\<close> field
  takes a string, \<open>Optional[str]\<close> a string or null, the role one of two literals, and
  the id (\<open>int | str | None\<close>) an integer, a string or null; a boolean is taken as the
  integer 0 or 1.\<close>

definition validate_str :: "json \<Rightarrow> exn + string" where
  "validate_str x =
     (case x of JStr t \<Rightarrow> Inr t | _ \<Rightarrow> Inl (ValidationError ''Input should be a valid string''))"

definition validate_opt_str :: "json \<Rightarrow> exn + string option" where
  "validate_opt_str x =
     (case x of
        JStr t \<Rightarrow> Inr (Some t)
      | JNull \<Rightarrow> Inr None
      | _ \<Rightarrow> Inl (ValidationError ''Input should be a valid string''))"

definition validate_role :: "json \<Rightarrow> exn + Role" where
  "validate_role x =
     (if x = JStr ''user'' then Inr RoleUser
      else if x = JStr ''agent'' then Inr RoleAgent
      else Inl (ValidationError ''Input should be user or agent''))"

definition validate_id :: "json \<Rightarrow> exn + rpc_id option" where
  "validate_id x =
     (case x of
        JNull \<Rightarrow> Inr None
      | JInt n \<Rightarrow> Inr (Some (IdInt n))
      | JStr t \<Rightarrow> Inr (Some (IdStr t))
      | JBool b \<Rightarrow> Inr (Some (IdInt (if b then 1 else 0)))
      | _ \<Rightarrow> Inl (ValidationError ''Input should be a valid integer or string''))"

text \<open>Lines 172 to 179: the loop that keeps the parts of kind \<open>text\<close>, with the list
  \<open>parts\<close> built so far.\<close>

fun collect_parts :: "json list \<Rightarrow> A2APart list \<Rightarrow> exn + A2APart list" where
  "collect_parts [] parts = Inr parts"
| "collect_parts (part_data # rest) parts =
     (case dict_get part_data ''kind'' JNull of
        Inl e \<Rightarrow> Inl e
      | Inr k \<Rightarrow>
          if k = JStr ''text''
          then (case dict_get part_data ''text'' (JStr []) of
                  Inl e \<Rightarrow> Inl e
                | Inr t \<Rightarrow>
                   (case dict_get part_data ''mimeType'' (JStr ''text/plain'') of
                      Inl e \<Rightarrow> Inl e
                    | Inr m \<Rightarrow>
                       (case validate_str t of
                          Inl e \<Rightarrow> Inl e
                        | Inr t' \<Rightarrow>
                           (case validate_opt_str m of
                              Inl e \<Rightarrow> Inl e
                            | Inr m' \<Rightarrow> collect_parts rest (parts @ [A2ATextPart t' m'])))))
          else collect_parts rest parts)"

text \<open>Lines 166 to 196, the body of the inner \<open>try\<close>: the request is put together by
  hand. Only role, parts and message id are passed to \<open>A2AMessage\<close>; task id and context
  id stay \<open>None\<close>.\<close>

definition parse_message_send :: "json \<Rightarrow> exn + A2AMessageSendRequest" where
  "parse_message_send body =
     (case dict_get body ''params'' (JObj []) of
        Inl e \<Rightarrow> Inl e
      | Inr params \<Rightarrow>
     (case dict_get params ''message'' (JObj []) of
        Inl e \<Rightarrow> Inl e
      | Inr message_data \<Rightarrow>
     (case dict_get message_data ''parts'' (JArr []) of
        Inl e \<Rightarrow> Inl e
      | Inr parts_json \<Rightarrow>
     (case py_iter parts_json of
        Inl e \<Rightarrow> Inl e
      | Inr items \<Rightarrow>
     (case collect_parts items [] of
        Inl e \<Rightarrow> Inl e
      | Inr parts \<Rightarrow>
     (case dict_get message_data ''role'' (JStr ''user'') of
        Inl e \<Rightarrow> Inl e
      | Inr role_json \<Rightarrow>
     (case dict_get message_data ''messageId'' (JStr ''auto'') of
        Inl e \<Rightarrow> Inl e
      | Inr mid_json \<Rightarrow>
     (case validate_role role_json of
        Inl e \<Rightarrow> Inl e
      | Inr r \<Rightarrow>
     (case validate_str mid_json of
        Inl e \<Rightarrow> Inl e
      | Inr mid \<Rightarrow>
     (case dict_get body ''id'' (JStr ''auto'') of
        Inl e \<Rightarrow> Inl e
      | Inr id_json \<Rightarrow>
     (case validate_id id_json of
        Inl e \<Rightarrow> Inl e
      | Inr i \<Rightarrow>
          Inr \<lparr>msr_id = i,
               msr_message = \<lparr>a2a_role = r, a2a_parts = parts, messageId = mid,
                               taskId = None, contextId = None\<rparr>\<rparr>)))))))))))"

text \<open>\<open>_handle_exception\<close>: the error is chosen by the exception's class, and the
  response always has \<open>id=None\<close> and status 400. The data of a validation error is
  pydantic's error list, of which the message is kept.\<close>

definition handle_exception :: "exn \<Rightarrow> http_reply" where
  "handle_exception e =
     (case (case e of
              JSONDecodeError \<Rightarrow> JSONParseError []
            | ValidationError m \<Rightarrow> InvalidRequestError [(''data'', JArr [JObj [(''msg'', JStr m)]])]
            | _ \<Rightarrow> InternalError []) of
        Inl e' \<Rightarrow> Uncaught e'
      | Inr json_rpc_error \<Rightarrow>
          (case JSONRPCResponse_new None None (Some json_rpc_error) of
             Inl e' \<Rightarrow> Uncaught e'
           | Inr response \<Rightarrow> JSONResponse response 400))"

text \<open>Lines 205 to 211: the answer to a request that the manual parse rejects. An
  exception raised here leaves the inner handler and reaches the outer one.\<close>

definition invalid_request_reply :: "json \<Rightarrow> exn \<Rightarrow> http_reply" where
  "invalid_request_reply body e =
     (case dict_get body ''id'' JNull of
        Inl e' \<Rightarrow> handle_exception e'
      | Inr id_json \<Rightarrow>
          (case InvalidRequestError [(''data'', JStr (exn_str e))] of
             Inl e' \<Rightarrow> handle_exception e'
           | Inr err \<Rightarrow>
               (case validate_id id_json of
                  Inl e' \<Rightarrow> handle_exception e'
                | Inr i \<Rightarrow>
                    (case JSONRPCResponse_new i None (Some err) of
                       Inl e' \<Rightarrow> handle_exception e'
                     | Inr r \<Rightarrow> JSONResponse r 400))))"

text \<open>Lines 153 to 159: the log lines read \<open>body.get('method')\<close>, \<open>body.keys()\<close> and
  \<open>body.get('params', {}).keys()\<close>; the method is what the dispatch looks at.\<close>

definition read_method :: "json \<Rightarrow> exn + json" where
  "read_method body =
     (case dict_get body ''method'' JNull of
        Inl e \<Rightarrow> Inl e
      | Inr m \<Rightarrow>
          (case dict_keys body of
             Inl e \<Rightarrow> Inl e
           | Inr ks \<Rightarrow>
               (case dict_get body ''params'' (JObj []) of
                  Inl e \<Rightarrow> Inl e
                | Inr params \<Rightarrow>
                    (case dict_keys params of
                       Inl e \<Rightarrow> Inl e
                     | Inr pks \<Rightarrow> Inr m))))"

text \<open>\<open>_create_response\<close>: an event stream for an iterable result, a JSON response
  (status 200) for a \<open>JSONRPCResponse\<close>.\<close>

definition create_response :: "handler_result \<Rightarrow> http_reply" where
  "create_response res =
     (case res of
        EventStream q \<Rightarrow> EventSourceResponse q
      | Reply r \<Rightarrow> JSONResponse r 200)"

text \<open>Lines 263 to 266: what the server sends for the outcome of a handler. A result
  goes through \<open>_create_response\<close>, an exception through \<open>_handle_exception\<close>.\<close>

definition finish_request :: "exn + handler_result \<Rightarrow> http_reply" where
  "finish_request outcome =
     (case outcome of
        Inl e \<Rightarrow> handle_exception e
      | Inr res \<Rightarrow> create_response res)"

text \<open>
  \<open>_process_request\<close>. The function imports \<open>A2AMessageSendRequest\<close>,
  \<open>MessageSendParams\<close>, \<open>A2AMessage\<close> and \<open>A2ATextPart\<close> on line 168 and
  \<open>InvalidRequestError\<close> and \<open>JSONRPCResponse\<close> on line 204, both inside the
  message/send branch. An import inside a function binds local names, so these names are
  local to all of \<open>_process_request\<close> and are bound only after the import has run. On
  the other branch none of the imports runs: line 219 reads \<open>JSONRPCResponse\<close> and
  line 228 reads \<open>A2AMessageSendRequest\<close> while they are unbound, which is an
  \<open>UnboundLocalError\<close>, caught by the outer handler on line 265. (Line 232 moreover
  names \<open>A2AMessageStreamRequest\<close>, which the module never imports.) The outcome of
  \<open>A2ARequest.validate_python\<close> is therefore of no consequence, and no handler but
  \<open>on_a2a_message_send\<close> is ever reached.
\<close>

definition process_request :: "env \<Rightarrow> http_body \<Rightarrow> manager \<Rightarrow> http_reply \<times> manager" where
  "process_request ev raw s =
     (case raw of
        NotJSON \<Rightarrow> (handle_exception JSONDecodeError, s)
      | Decoded body \<Rightarrow>
         (case read_method body of
            Inl e \<Rightarrow> (handle_exception e, s)
          | Inr m \<Rightarrow>
             if m = JStr ''message/send''
             then (case parse_message_send body of
                     Inl e \<Rightarrow> (invalid_request_reply body e, s)
                   | Inr json_rpc_request \<Rightarrow>
                      (case on_a2a_message_send ev json_rpc_request s of
                         (Inl e, s1) \<Rightarrow> (finish_request (Inl e), s1)
                       | (Inr r, s1) \<Rightarrow> (finish_request (Inr (Reply r)), s1)))
             else (case validate_python ev body of
                     Inl e \<Rightarrow> (handle_exception (UnboundLocalError ''JSONRPCResponse''), s)
                   | Inr u \<Rightarrow> (handle_exception (UnboundLocalError ''A2AMessageSendRequest''), s))))"

section \<open>Concrete inputs\<close>

text \<open>
  A small world to run the handlers in: an agent that completes at once with the answer
  \<open>Hi\<close>, a stream of two working chunks and a completing one, a verifier that accepts
  URLs starting with \<open>https\<close>, and the modality check that accepts a request with no
  accepted modes or with one the agent supports.
\<close>

definition chunks_B :: "stream_item list" where
  "chunks_B =
     [\<lparr>item_is_task_complete = False, item_require_user_input = False, item_content = ''one''\<rparr>,
      \<lparr>item_is_task_complete = False, item_require_user_input = False, item_content = ''two''\<rparr>,
      \<lparr>item_is_task_complete = True, item_require_user_input = False, item_content = ''done''\<rparr>]"

definition env0 :: env where
  "env0 =
     \<lparr>SUPPORTED_CONTENT_TYPES = [''text'', ''text/plain''],
      invoke_async = (\<lambda>query session.
         AgentReturns \<lparr>is_task_complete = Some True, require_user_input = Some False,
                       content = Some ''Hi''\<rparr>),
      stream = (\<lambda>query session. (chunks_B, None)),
      verify_push_notification_url = (\<lambda>u. take 5 u = ''https''),
      are_modalities_compatible = (\<lambda>client server.
         case client of
           None \<Rightarrow> True
         | Some ms \<Rightarrow> ms = [] \<or> list_ex (\<lambda>m. m \<in> set server) ms),
      uuid4 = (\<lambda>n. if n = 0 then ''0a0a0a0a0a0a0a0a'' else ''1b1b1b1b1b1b1b1b''),
      validate_python = (\<lambda>body. Inr ())\<rparr>"

text \<open>The same world with an agent that raises, and with one that asks for input.\<close>

definition env_raise :: env where
  "env_raise = env0\<lparr>invoke_async := (\<lambda>query session. AgentRaises ''boom'')\<rparr>"

definition env_input :: env where
  "env_input =
     env0\<lparr>invoke_async := (\<lambda>query session.
       AgentReturns \<lparr>is_task_complete = Some False, require_user_input = Some True,
                     content = Some ''Which one?''\<rparr>)\<rparr>"

definition s0 :: manager where
  "s0 = \<lparr>tasks = [], push_notification_infos = [], task_sse_subscribers = [],
         sse_queues = [], sent_notifications = [], uuid_count = 0, journal = []\<rparr>"

text \<open>A tasks/send request for task \<open>T1\<close> with the text \<open>Hello\<close>.\<close>

definition send_T1 :: SendTaskRequest where
  "send_T1 =
     \<lparr>str_id = Some (IdInt 1),
      str_params =
        \<lparr>tsp_id = ''T1'', sessionId = ''C1'',
         tsp_message = \<lparr>msg_role = RoleUser, msg_parts = [TextPart ''Hello'']\<rparr>,
         acceptedOutputModes = None, pushNotification = None, historyLength = None\<rparr>\<rparr>"

text \<open>The same request with a file as its first part, and with a push-notification
  URL that the verifier rejects.\<close>

definition send_file :: SendTaskRequest where
  "send_file =
     send_T1\<lparr>str_params := (str_params send_T1)
        \<lparr>tsp_message :=
           \<lparr>msg_role = RoleUser,
            msg_parts = [FilePart \<lparr>fc_name = None, fc_mimeType = None, fc_bytes = None,
                                   fc_uri = Some ''file:///a.png''\<rparr>]\<rparr>\<rparr>\<rparr>"

definition send_push :: SendTaskRequest where
  "send_push =
     send_T1\<lparr>str_params := (str_params send_T1)
        \<lparr>pushNotification := Some \<lparr>url = ''http://callback'', token = None\<rparr>\<rparr>\<rparr>"

text \<open>Scenario B: a tasks/sendSubscribe request for task \<open>T2\<close>.\<close>

definition subscribe_T2 :: SendTaskRequest where
  "subscribe_T2 = send_T1\<lparr>str_params := (str_params send_T1)\<lparr>tsp_id := ''T2''\<rparr>\<rparr>"

text \<open>Scenario E: a tasks/resubscribe request for a task that was never created.\<close>

definition resubscribe_never :: TaskResubscriptionRequest where
  "resubscribe_never = \<lparr>trr_id = Some (IdInt 5), trr_task_id = ''never-created''\<rparr>"

text \<open>The world in which pydantic rejects the request body.\<close>

definition env_reject :: env where
  "env_reject =
     env0\<lparr>validate_python := (\<lambda>body. Inl (ValidationError ''union_tag_invalid''))\<rparr>"

text \<open>A message/send request with a text part, a data part and a second text part.\<close>

definition msg_M1 :: A2AMessageSendRequest where
  "msg_M1 =
     \<lparr>msr_id = Some (IdStr ''r1''),
      msr_message =
        \<lparr>a2a_role = RoleUser,
         a2a_parts = [A2ATextPart ''Hel'' (Some ''text/plain''), A2ADataPart (JObj [(''n'', JInt 7)]),
                      A2ATextPart ''lo'' None],
         messageId = ''m1'', taskId = Some ''T1'', contextId = Some ''C1''\<rparr>\<rparr>"

text \<open>The world with an agent that answers with the query it was given, a verified and
  an unverified push-notification configuration, and the manager's state after the
  verified one has been registered for task \<open>T1\<close>.\<close>

definition env_echo :: env where
  "env_echo =
     env0\<lparr>invoke_async := (\<lambda>query session.
       AgentReturns \<lparr>is_task_complete = Some True, require_user_input = Some False,
                     content = Some query\<rparr>)\<rparr>"

definition cfg_verified :: PushNotificationConfig where
  "cfg_verified = \<lparr>url = ''https://callback'', token = None\<rparr>"

definition cfg_unverified :: PushNotificationConfig where
  "cfg_unverified = \<lparr>url = ''http://callback'', token = None\<rparr>"

definition s_registered :: manager where
  "s_registered = s0\<lparr>push_notification_infos := [(''T1'', cfg_verified)]\<rparr>"

text \<open>Request bodies as they arrive at the server.\<close>

definition body_message_send :: json where
  "body_message_send =
     JObj [(''jsonrpc'', JStr ''2.0''), (''id'', JInt 7), (''method'', JStr ''message/send''),
           (''params'', JObj [(''message'',
              JObj [(''role'', JStr ''user''), (''messageId'', JStr ''m1''),
                    (''parts'', JArr [JObj [(''kind'', JStr ''text''), (''text'', JStr ''Hello'')]])])])]"

definition body_unknown_method :: json where
  "body_unknown_method =
     JObj [(''jsonrpc'', JStr ''2.0''), (''id'', JInt 3), (''method'', JStr ''tasks/doesNotExist''),
           (''params'', JObj [])]"

definition body_resubscribe :: json where
  "body_resubscribe =
     JObj [(''jsonrpc'', JStr ''2.0''), (''id'', JInt 5), (''method'', JStr ''tasks/resubscribe''),
           (''params'', JObj [(''id'', JStr ''never-created'')])]"

definition body_params_array :: json where
  "body_params_array =
     JObj [(''jsonrpc'', JStr ''2.0''), (''id'', JInt 5), (''method'', JStr ''message/send''),
           (''params'', JArr [])]"

section \<open>The properties, in the specification's words\<close>

text \<open>A response has exactly one of a result and an error.\<close>

definition exactly_one_of_result_error :: "JSONRPCResponse \<Rightarrow> bool" where
  "exactly_one_of_result_error resp = ((result resp = None) \<noteq> (error resp = None))"

text \<open>The in-order concatenation of the text fields of the parts whose kind is text.\<close>

fun is_text_part :: "A2APart \<Rightarrow> bool" where
  "is_text_part (A2ATextPart t m) = True"
| "is_text_part (A2AFilePart f) = False"
| "is_text_part (A2ADataPart d) = False"

fun part_text :: "A2APart \<Rightarrow> string" where
  "part_text (A2ATextPart t m) = t"
| "part_text (A2AFilePart f) = []"
| "part_text (A2ADataPart d) = []"

definition concat_text_parts :: "A2APart list \<Rightarrow> string" where
  "concat_text_parts ps = concat (map part_text (filter is_text_part ps))"

text \<open>The session id that \<open>on_a2a_message_send\<close> works with: the message's context
  id, or a fresh uuid (drawn after the one for a missing task id).\<close>

definition message_send_session :: "env \<Rightarrow> A2AMessageSendRequest \<Rightarrow> manager \<Rightarrow> string" where
  "message_send_session ev request s =
     fst (or_uuid ev (contextId (msr_message request))
            (snd (or_uuid ev (taskId (msr_message request)) s)))"

text \<open>A tasks/send request passes validation: \<open>_validate_request\<close> has no
  objection, and the push-notification URL, if there is one, is verified.\<close>

definition accepted :: "env \<Rightarrow> SendTaskRequest \<Rightarrow> bool" where
  "accepted ev request =
     (validate_request ev (str_id request) (str_params request) = Inr None
      \<and> (case pushNotification (str_params request) of
            None \<Rightarrow> True
          | Some cfg \<Rightarrow> verify_push_notification_url ev (url cfg)))"

text \<open>The response of \<open>_handle_exception\<close> to an exception that is neither a JSON
  decoding error nor a validation error.\<close>

definition internal_error_response :: JSONRPCResponse where
  "internal_error_response =
     \<lparr>rsp_id = None, result = None,
      error = Some \<lparr>code = - 32603, err_message = ''Internal server error'',
                    err_data = None\<rparr>\<rparr>"

text \<open>A reply is a JSON-RPC error response with the code of an internal error.\<close>

definition is_internal_error_reply :: "http_reply \<Rightarrow> bool" where
  "is_internal_error_reply reply =
     (case reply of
        JSONResponse resp c \<Rightarrow> result resp = None \<and> map_option code (error resp) = Some (- 32603)
      | EventSourceResponse q \<Rightarrow> False
      | Uncaught e \<Rightarrow> False)"

text \<open>The id X of a request body, when the body is an object whose id is an integer or
  a string.\<close>

fun json_id :: "json \<Rightarrow> rpc_id option" where
  "json_id (JInt n) = Some (IdInt n)"
| "json_id (JStr t) = Some (IdStr t)"
| "json_id JNull = None"
| "json_id (JBool b) = None"
| "json_id (JArr xs) = None"
| "json_id (JObj kvs) = None"

definition request_id :: "json \<Rightarrow> rpc_id option" where
  "request_id body =
     (case body of
        JObj kvs \<Rightarrow> (case map_of kvs ''id'' of None \<Rightarrow> None | Some j \<Rightarrow> json_id j)
      | _ \<Rightarrow> None)"

text \<open>The text that a JSON part of a request body contributes: the \<open>text\<close> field of
  an object whose \<open>kind\<close> is \<open>text\<close>, and nothing otherwise.\<close>

fun json_part_text :: "json \<Rightarrow> string" where
  "json_part_text (JObj kvs) =
     (if map_of kvs ''kind'' = Some (JStr ''text'')
      then (case map_of kvs ''text'' of Some (JStr t) \<Rightarrow> t | _ \<Rightarrow> [])
      else [])"
| "json_part_text JNull = []"
| "json_part_text (JBool b) = []"
| "json_part_text (JInt n) = []"
| "json_part_text (JStr t) = []"
| "json_part_text (JArr xs) = []"

text \<open>The JSON parts of the message of a message/send body, in order.\<close>

definition message_parts_json :: "json \<Rightarrow> json list" where
  "message_parts_json body =
     (case dict_get body ''params'' (JObj []) of
        Inl e \<Rightarrow> []
      | Inr params \<Rightarrow>
         (case dict_get params ''message'' (JObj []) of
            Inl e \<Rightarrow> []
          | Inr message_data \<Rightarrow>
             (case dict_get message_data ''parts'' (JArr []) of
                Inl e \<Rightarrow> []
              | Inr parts_json \<Rightarrow>
                 (case py_iter parts_json of Inl e \<Rightarrow> [] | Inr items \<Rightarrow> items))))"

text \<open>The method names of the request union \<open>A2ARequest\<close>.\<close>

definition supported_methods :: "string list" where
  "supported_methods =
     [''message/send'', ''message/stream'', ''tasks/get'', ''tasks/cancel'',
      ''tasks/pushNotification/set'', ''tasks/pushNotification/get'', ''tasks/resubscribe'',
      ''tasks/send'', ''tasks/sendSubscribe'']"

text \<open>A reply is a JSON-RPC error response, sent with status 400, whose code is not
  \<open>k\<close>.\<close>

definition is_error_reply_other_than :: "int \<Rightarrow> http_reply \<Rightarrow> bool" where
  "is_error_reply_other_than k reply =
     (case reply of
        JSONResponse resp c \<Rightarrow>
          c = 400 \<and> result resp = None \<and> error resp \<noteq> None
          \<and> map_option code (error resp) \<noteq> Some k
      | EventSourceResponse q \<Rightarrow> False
      | Uncaught e \<Rightarrow> False)"

section \<open>Basic facts\<close>

lemma JSONRPCResponse_new_result [simp]:
  "JSONRPCResponse_new i (Some r) None = Inr \<lparr>rsp_id = i, result = Some r, error = None\<rparr>"
  by (simp add: JSONRPCResponse_new_def validate_result_or_error_def)

lemma JSONRPCResponse_new_error [simp]:
  "JSONRPCResponse_new i None (Some e) = Inr \<lparr>rsp_id = i, result = None, error = Some e\<rparr>"
  by (simp add: JSONRPCResponse_new_def validate_result_or_error_def)

lemma JSONRPCResponse_new_Inr:
  "JSONRPCResponse_new i r e = Inr resp \<Longrightarrow>
     resp = \<lparr>rsp_id = i, result = r, error = e\<rparr> \<and> (r = None) \<noteq> (e = None)"
  by (auto simp: JSONRPCResponse_new_def validate_result_or_error_def split: if_splits)

lemma JSONRPCResponse_new_exactly_one:
  "JSONRPCResponse_new i r e = Inr resp \<Longrightarrow> exactly_one_of_result_error resp"
  by (drule JSONRPCResponse_new_Inr) (auto simp: exactly_one_of_result_error_def)

lemma error_init_message [simp]:
  "error_init c m [(''message'', v)]
     = Inl (TypeError ''__init__() got an unexpected keyword argument'')"
  by (simp add: error_init_def only_data_def)

lemma error_init_empty [simp]:
  "error_init c m [] = Inr \<lparr>code = c, err_message = m, err_data = None\<rparr>"
  by (simp add: error_init_def only_data_def)

lemma error_init_data [simp]:
  "error_init c m [(''data'', v)] = Inr \<lparr>code = c, err_message = m, err_data = Some v\<rparr>"
  by (simp add: error_init_def only_data_def)

lemma handle_exception_TypeError [simp]:
  "handle_exception (TypeError m) =
     JSONResponse \<lparr>rsp_id = None, result = None,
        error = Some \<lparr>code = - 32603, err_message = ''Internal server error'',
                      err_data = None\<rparr>\<rparr> 400"
  by (simp add: handle_exception_def InternalError_def)

lemma handle_exception_ValueError [simp]:
  "handle_exception (ValueError m) =
     JSONResponse \<lparr>rsp_id = None, result = None,
        error = Some \<lparr>code = - 32603, err_message = ''Internal server error'',
                      err_data = None\<rparr>\<rparr> 400"
  by (simp add: handle_exception_def InternalError_def)

lemma handle_exception_exactly_one:
  "handle_exception e = JSONResponse resp c \<Longrightarrow> exactly_one_of_result_error resp"
  by (auto simp: handle_exception_def exactly_one_of_result_error_def split: sum.splits)

lemma invalid_request_reply_exactly_one:
  "invalid_request_reply body e = JSONResponse resp c \<Longrightarrow> exactly_one_of_result_error resp"
  by (auto simp: invalid_request_reply_def exactly_one_of_result_error_def split: sum.splits
      dest: handle_exception_exactly_one [unfolded exactly_one_of_result_error_def])

lemma on_a2a_message_send_exactly_one:
  "on_a2a_message_send ev request s = (Inr resp, s') \<Longrightarrow> exactly_one_of_result_error resp"
  by (auto simp: on_a2a_message_send_def message_send_failed_def Let_def
        exactly_one_of_result_error_def
      split: prod.splits agent_outcome.splits if_splits sum.splits)

lemma process_request_exactly_one:
  "fst (process_request ev raw s) = JSONResponse resp c \<Longrightarrow> exactly_one_of_result_error resp"
  by (auto simp: process_request_def finish_request_def create_response_def
      split: http_body.splits sum.splits if_splits prod.splits
      dest: handle_exception_exactly_one invalid_request_reply_exactly_one
            on_a2a_message_send_exactly_one)

lemma validate_request_no_result:
  "validate_request ev i p = Inr (Some r) \<Longrightarrow> result r = None \<and> error r \<noteq> None"
  by (auto simp: validate_request_def new_incompatible_types_error_def InvalidParamsError_def
      split: if_splits option.splits sum.splits)

lemma validate_request_raises:
  "validate_request ev i p = Inl e \<Longrightarrow>
     e = TypeError ''__init__() got an unexpected keyword argument''"
  by (auto simp: validate_request_def new_incompatible_types_error_def InvalidParamsError_def
      split: if_splits option.splits sum.splits)

lemma extract_text_acc:
  "foldl (\<lambda>message_text part.
              case part of
                A2ATextPart t m \<Rightarrow> message_text @ t
              | A2AFilePart f \<Rightarrow> message_text
              | A2ADataPart d \<Rightarrow> message_text) acc ps = acc @ concat_text_parts ps"
proof (induction ps arbitrary: acc)
  case Nil
  then show ?case by (simp add: concat_text_parts_def)
next
  case (Cons p ps)
  then show ?case by (cases p) (simp_all add: concat_text_parts_def)
qed

lemma extract_text_eq: "extract_text ps = concat_text_parts ps"
  by (simp add: extract_text_def extract_text_acc)

lemma map_of_update_same [simp]: "map_of (AList.update k v al) k = Some v"
  by (simp add: update_conv')

lemma send_task_notification_keeps [simp]:
  "tasks (send_task_notification t s) = tasks s"
  "journal (send_task_notification t s) = journal s"
  by (auto simp: send_task_notification_def send_push_notification_def split: option.splits)

lemma upsert_task_facts:
  "map_of (tasks (snd (upsert_task p s))) (tsp_id p) = Some (fst (upsert_task p s))"
  "journal (snd (upsert_task p s)) = journal s @ [Upserted (tsp_id p)]"
  by (simp_all add: upsert_task_def Let_def)

lemma update_store_found:
  assumes "map_of (tasks s) tid = Some t0"
  shows "\<exists>t s'. update_store tid st arts s = (Inr t, s')
           \<and> map_of (tasks s') tid = Some t
           \<and> task_status t = st
           \<and> artifacts t = (case arts of None \<Rightarrow> artifacts t0
                 | Some new \<Rightarrow> Some (foldl add_artifact (case artifacts t0 of None \<Rightarrow> [] | Some old \<Rightarrow> old) new))
           \<and> journal s' = journal s @ [StatusWritten tid (state st)]"
  using assms by (simp add: update_store_def Let_def)

lemma add_artifact_plain:
  "art_append a \<noteq> Some True \<Longrightarrow> add_artifact bs a = bs @ [a]"
  by (induction bs) simp_all

lemma agent_message_facts:
  "tasks (snd (agent_message ev ps s)) = tasks s"
  "journal (snd (agent_message ev ps s)) = journal s"
  "a2a_role (fst (agent_message ev ps s)) = RoleAgent"
  "a2a_parts (fst (agent_message ev ps s)) = ps"
  by (simp_all add: agent_message_def draw_uuid_def Let_def)

lemma default_artifact_facts:
  "tasks (snd (default_artifact ev ps app s)) = tasks s"
  "journal (snd (default_artifact ev ps app s)) = journal s"
  "art_parts (fst (default_artifact ev ps app s)) = ps"
  "art_append (fst (default_artifact ev ps app s)) = app"
  by (simp_all add: default_artifact_def draw_uuid_def Let_def)

lemma process_agent_response_input_required:
  assumes t0: "map_of (tasks s) (tsp_id (str_params request)) = Some t0"
    and c: "content resp = Some c"
    and rui: "require_user_input resp = Some True"
  shows "\<exists>t s'. process_agent_response ev request resp s
            = (Inr \<lparr>rsp_id = str_id request,
                    result = Some (ResultTask (append_task_history t (historyLength (str_params request)))),
                    error = None\<rparr>, s')
         \<and> map_of (tasks s') (tsp_id (str_params request)) = Some t
         \<and> state (task_status t) = INPUT_REQUIRED
         \<and> (\<exists>msg. status_message (task_status t) = Some (A2AMsg msg)
                \<and> a2a_role msg = RoleAgent
                \<and> a2a_parts msg = [A2ATextPart c (Some ''text/plain'')])
         \<and> journal s' = journal s @ [StatusWritten (tsp_id (str_params request)) INPUT_REQUIRED]"
proof -
  obtain m s1 where am: "agent_message ev [A2ATextPart c (Some ''text/plain'')] s = (m, s1)"
    by (cases "agent_message ev [A2ATextPart c (Some ''text/plain'')] s")
  have f: "tasks s1 = tasks s" "journal s1 = journal s" "a2a_role m = RoleAgent"
    "a2a_parts m = [A2ATextPart c (Some ''text/plain'')]"
    using agent_message_facts [of ev "[A2ATextPart c (Some ''text/plain'')]" s] am by simp_all
  from t0 f have t1: "map_of (tasks s1) (tsp_id (str_params request)) = Some t0" by simp
  from update_store_found [OF t1, of "\<lparr>state = INPUT_REQUIRED, status_message = Some (A2AMsg m)\<rparr>" None]
  obtain t s2 where us: "update_store (tsp_id (str_params request))
        \<lparr>state = INPUT_REQUIRED, status_message = Some (A2AMsg m)\<rparr> None s1 = (Inr t, s2)"
    and m2: "map_of (tasks s2) (tsp_id (str_params request)) = Some t"
    and st: "task_status t = \<lparr>state = INPUT_REQUIRED, status_message = Some (A2AMsg m)\<rparr>"
    and j2: "journal s2 = journal s1 @ [StatusWritten (tsp_id (str_params request)) INPUT_REQUIRED]"
    by auto
  show ?thesis
    using c rui am us m2 st j2 f
    by (simp add: process_agent_response_def Let_def)
qed

lemma process_agent_response_completed:
  assumes t0: "map_of (tasks s) (tsp_id (str_params request)) = Some t0"
    and c: "content resp = Some c"
    and rui: "require_user_input resp = Some False"
  shows "\<exists>t s'. process_agent_response ev request resp s
            = (Inr \<lparr>rsp_id = str_id request,
                    result = Some (ResultTask (append_task_history t (historyLength (str_params request)))),
                    error = None\<rparr>, s')
         \<and> map_of (tasks s') (tsp_id (str_params request)) = Some t
         \<and> state (task_status t) = COMPLETED
         \<and> (\<exists>old a. artifacts t = Some (old @ [a])
                \<and> art_parts a = [A2ATextPart c (Some ''text/plain'')])
         \<and> journal s' = journal s @ [StatusWritten (tsp_id (str_params request)) COMPLETED]"
proof -
  obtain a s1 where da: "default_artifact ev [A2ATextPart c (Some ''text/plain'')] None s = (a, s1)"
    by (cases "default_artifact ev [A2ATextPart c (Some ''text/plain'')] None s")
  have f: "tasks s1 = tasks s" "journal s1 = journal s"
    "art_parts a = [A2ATextPart c (Some ''text/plain'')]" "art_append a = None"
    using default_artifact_facts [of ev "[A2ATextPart c (Some ''text/plain'')]" None s] da by simp_all
  from t0 f have t1: "map_of (tasks s1) (tsp_id (str_params request)) = Some t0" by simp
  from update_store_found [OF t1, of "\<lparr>state = COMPLETED, status_message = None\<rparr>" "Some [a]"]
  obtain t s2 where us: "update_store (tsp_id (str_params request))
        \<lparr>state = COMPLETED, status_message = None\<rparr> (Some [a]) s1 = (Inr t, s2)"
    and m2: "map_of (tasks s2) (tsp_id (str_params request)) = Some t"
    and st: "task_status t = \<lparr>state = COMPLETED, status_message = None\<rparr>"
    and ar: "artifacts t = Some (foldl add_artifact (case artifacts t0 of None \<Rightarrow> [] | Some old \<Rightarrow> old) [a])"
    and j2: "journal s2 = journal s1 @ [StatusWritten (tsp_id (str_params request)) COMPLETED]"
    by auto
  from f have "add_artifact bs a = bs @ [a]" for bs by (simp add: add_artifact_plain)
  with ar have ar': "artifacts t = Some ((case artifacts t0 of None \<Rightarrow> [] | Some old \<Rightarrow> old) @ [a])"
    by simp
  show ?thesis
    using c rui da us m2 st j2 f ar'
    by (simp add: process_agent_response_def Let_def)
qed

lemma on_send_task_accepted:
  assumes "accepted ev request"
  shows "\<exists>s1. on_send_task ev request s = run_send_task ev request s1
           \<and> journal s1 = journal s \<and> tasks s1 = tasks s"
  using assms
  by (auto simp: accepted_def on_send_task_def set_push_notification_info_def
        super_set_push_notification_info_def split: option.splits)

lemma on_send_task_not_accepted:
  assumes "\<not> accepted ev request"
  shows "snd (on_send_task ev request s) = s
     \<and> (\<forall>resp. fst (on_send_task ev request s) = Inr resp
            \<longrightarrow> result resp = None \<and> error resp \<noteq> None)"
proof (cases "validate_request ev (str_id request) (str_params request)")
  case (Inl e)
  then show ?thesis by (simp add: on_send_task_def)
next
  case (Inr v)
  show ?thesis
  proof (cases v)
    case None
    with Inr assms show ?thesis
      by (auto simp: accepted_def on_send_task_def set_push_notification_info_def
            InvalidParamsError_def split: option.splits)
  next
    case (Some r)
    with Inr validate_request_no_result [of ev "str_id request" "str_params request" r]
    show ?thesis by (cases "error r") (auto simp: on_send_task_def)
  qed
qed

lemma run_send_task_working:
  "\<exists>t s2. update_store (tsp_id (str_params request))
             \<lparr>state = WORKING, status_message = None\<rparr> None
             (snd (upsert_task (str_params request) s)) = (Inr t, s2)
        \<and> map_of (tasks s2) (tsp_id (str_params request)) = Some t
        \<and> state (task_status t) = WORKING
        \<and> journal s2 = journal s @ [Upserted (tsp_id (str_params request)),
                                    StatusWritten (tsp_id (str_params request)) WORKING]"
  using update_store_found [OF upsert_task_facts(1) [of "str_params request" s],
          of "\<lparr>state = WORKING, status_message = None\<rparr>" None]
  by (auto simp: upsert_task_facts(2))

lemma run_send_task_agent_raises:
  assumes q: "get_user_query (str_params request) = Inr query"
    and r: "invoke_async ev query (sessionId (str_params request)) = AgentRaises m"
  shows "fst (run_send_task ev request s) = Inl (ValueError (''Error invoking agent: '' @ m))
     \<and> (\<exists>t. map_of (tasks (snd (run_send_task ev request s))) (tsp_id (str_params request)) = Some t
            \<and> state (task_status t) = WORKING)
     \<and> journal (snd (run_send_task ev request s))
         = journal s @ [Upserted (tsp_id (str_params request)),
                        StatusWritten (tsp_id (str_params request)) WORKING,
                        AgentInvoked query (sessionId (str_params request))]"
proof -
  from run_send_task_working [of request s] obtain t s2 where
    "update_store (tsp_id (str_params request)) \<lparr>state = WORKING, status_message = None\<rparr> None
             (snd (upsert_task (str_params request) s)) = (Inr t, s2)"
    "map_of (tasks s2) (tsp_id (str_params request)) = Some t"
    "state (task_status t) = WORKING"
    "journal s2 = journal s @ [Upserted (tsp_id (str_params request)),
                                    StatusWritten (tsp_id (str_params request)) WORKING]"
    by blast
  with q r show ?thesis
    by (simp add: run_send_task_def Let_def split_beta)
qed

lemma run_send_task_query_fails:
  assumes q: "get_user_query (str_params request) = Inl e"
  shows "fst (run_send_task ev request s) = Inl e
     \<and> (\<exists>t. map_of (tasks (snd (run_send_task ev request s))) (tsp_id (str_params request)) = Some t
            \<and> state (task_status t) = WORKING)
     \<and> journal (snd (run_send_task ev request s))
         = journal s @ [Upserted (tsp_id (str_params request)),
                        StatusWritten (tsp_id (str_params request)) WORKING]"
proof -
  from run_send_task_working [of request s] obtain t s2 where
    "update_store (tsp_id (str_params request)) \<lparr>state = WORKING, status_message = None\<rparr> None
             (snd (upsert_task (str_params request) s)) = (Inr t, s2)"
    "map_of (tasks s2) (tsp_id (str_params request)) = Some t"
    "state (task_status t) = WORKING"
    "journal s2 = journal s @ [Upserted (tsp_id (str_params request)),
                                    StatusWritten (tsp_id (str_params request)) WORKING]"
    by blast
  with q show ?thesis
    by (simp add: run_send_task_def Let_def split_beta)
qed

lemma run_send_task_agent_returns:
  assumes q: "get_user_query (str_params request) = Inr query"
    and r: "invoke_async ev query (sessionId (str_params request)) = AgentReturns resp"
    and c: "content resp = Some c"
    and rui: "require_user_input resp = Some rui"
  shows "\<exists>t. map_of (tasks (snd (run_send_task ev request s))) (tsp_id (str_params request)) = Some t
       \<and> fst (run_send_task ev request s)
           = Inr \<lparr>rsp_id = str_id request,
                  result = Some (ResultTask (append_task_history t (historyLength (str_params request)))),
                  error = None\<rparr>
       \<and> (if rui
          then state (task_status t) = INPUT_REQUIRED
             \<and> (\<exists>msg. status_message (task_status t) = Some (A2AMsg msg)
                    \<and> a2a_role msg = RoleAgent
                    \<and> a2a_parts msg = [A2ATextPart c (Some ''text/plain'')])
          else state (task_status t) = COMPLETED
             \<and> (\<exists>old a. artifacts t = Some (old @ [a])
                    \<and> art_parts a = [A2ATextPart c (Some ''text/plain'')]))
       \<and> journal (snd (run_send_task ev request s))
           = journal s @ [Upserted (tsp_id (str_params request)),
                          StatusWritten (tsp_id (str_params request)) WORKING,
                          AgentInvoked query (sessionId (str_params request)),
                          StatusWritten (tsp_id (str_params request))
                            (if rui then INPUT_REQUIRED else COMPLETED)]"
proof -
  let ?tid = "tsp_id (str_params request)"
  from run_send_task_working [of request s] obtain t1 s2 where
    us: "update_store ?tid \<lparr>state = WORKING, status_message = None\<rparr> None
             (snd (upsert_task (str_params request) s)) = (Inr t1, s2)"
    and m2: "map_of (tasks s2) ?tid = Some t1"
    and j2: "journal s2 = journal s @ [Upserted ?tid, StatusWritten ?tid WORKING]"
    by blast
  define s4 where "s4 = (send_task_notification t1 s2)
     \<lparr>journal := journal (send_task_notification t1 s2)
          @ [AgentInvoked query (sessionId (str_params request))]\<rparr>"
  have m4: "map_of (tasks s4) ?tid = Some t1"
    and j4: "journal s4 = journal s @ [Upserted ?tid, StatusWritten ?tid WORKING,
               AgentInvoked query (sessionId (str_params request))]"
    using m2 j2 by (simp_all add: s4_def)
  have run: "run_send_task ev request s = process_agent_response ev request resp s4"
    using us q r by (simp add: run_send_task_def Let_def split_beta s4_def)
  show ?thesis
  proof (cases rui)
    case True
    with process_agent_response_input_required [OF m4 c, of ev] rui run j4
    show ?thesis by auto
  next
    case False
    with process_agent_response_completed [OF m4 c, of ev] rui run j4
    show ?thesis by auto
  qed
qed

lemma or_uuid_keeps [simp]:
  "tasks (snd (or_uuid ev x s)) = tasks s"
  "journal (snd (or_uuid ev x s)) = journal s"
  "push_notification_infos (snd (or_uuid ev x s)) = push_notification_infos s"
  by (simp_all add: or_uuid_def draw_uuid_def split: option.splits)

lemma on_a2a_message_send_keeps_store:
  "tasks (snd (on_a2a_message_send ev request s)) = tasks s"
  by (simp add: on_a2a_message_send_def message_send_failed_def Let_def split_beta draw_uuid_def
      split: agent_outcome.splits option.splits)

lemma on_a2a_message_send_agent_raises:
  assumes "invoke_async ev (concat_text_parts (a2a_parts (msr_message request)))
             (message_send_session ev request s) = AgentRaises m"
  shows "\<exists>t. fst (on_a2a_message_send ev request s)
            = Inr \<lparr>rsp_id = msr_id request, result = Some (ResultA2ATask t), error = None\<rparr>
          \<and> state (task_status t) = FAILED
          \<and> status_message (task_status t)
              = Some (LegacyMessage \<lparr>msg_role = RoleAgent, msg_parts = [TextPart (''Error: '' @ m)]\<rparr>)"
  using assms
  by (simp add: on_a2a_message_send_def message_send_failed_def message_send_session_def
        Let_def split_beta extract_text_eq)

lemma on_a2a_message_send_agent_returns:
  assumes "invoke_async ev (concat_text_parts (a2a_parts (msr_message request)))
             (message_send_session ev request s) = AgentReturns resp"
  shows "\<exists>t. fst (on_a2a_message_send ev request s)
            = Inr \<lparr>rsp_id = msr_id request, result = Some (ResultA2ATask t), error = None\<rparr>
          \<and> (if is_task_complete resp = Some True
              then state (task_status t) = COMPLETED
                 \<and> (\<exists>a. artifacts t = Some [a]
                      \<and> art_parts a = [A2ATextPart (case content resp of None \<Rightarrow> ''Task completed''
                                                     | Some c \<Rightarrow> c) (Some ''text/plain'')])
              else task_status t
                     = \<lparr>state = INPUT_REQUIRED,
                        status_message = Some (LegacyMessage
                           \<lparr>msg_role = RoleAgent,
                            msg_parts = [TextPart (case content resp of None \<Rightarrow> ''Task in progress''
                                                   | Some c \<Rightarrow> c)]\<rparr>)\<rparr>
                 \<and> artifacts t = None)"
  using assms
  by (cases "is_task_complete resp")
     (auto simp: on_a2a_message_send_def message_send_failed_def message_send_session_def
        Let_def split_beta extract_text_eq draw_uuid_def)

lemma process_request_other_method:
  assumes "read_method body = Inr m" "m \<noteq> JStr ''message/send''"
  shows "process_request ev (Decoded body) s = (JSONResponse internal_error_response 400, s)"
  using assms
  by (simp add: process_request_def handle_exception_def InternalError_def
        internal_error_response_def split: sum.splits)

lemma setup_sse_consumer_unknown:
  "map_of (task_sse_subscribers s) tid = None \<Longrightarrow>
     setup_sse_consumer tid True s = (Inl (TaskNotFound tid), s)"
  by (simp add: setup_sse_consumer_def)

lemma on_resubscribe_unknown:
  assumes "map_of (task_sse_subscribers s) (trr_task_id request) = None"
  shows "on_resubscribe_to_task request s
           = (Inl (TypeError ''__init__() got an unexpected keyword argument''), s)"
  using assms
  by (simp add: on_resubscribe_to_task_def setup_sse_consumer_unknown internal_error_reply_def
        InternalError_def)

lemma read_method_resubscribe: "read_method body_resubscribe = Inr (JStr ''tasks/resubscribe'')"
  by (simp add: read_method_def dict_get_def dict_keys_def body_resubscribe_def)

lemma read_method_unknown: "read_method body_unknown_method = Inr (JStr ''tasks/doesNotExist'')"
  by (simp add: read_method_def dict_get_def dict_keys_def body_unknown_method_def)

lemma event_constructors_fail [simp]:
  "TaskStatusUpdateEvent_new None None st fin = Inl (ValidationError ''Field required'')"
  "TaskArtifactUpdateEvent_new None None a = Inl (ValidationError ''Field required'')"
  by (simp_all add: TaskStatusUpdateEvent_new_def TaskArtifactUpdateEvent_new_def)

lemma sse_queues_kept [simp]:
  "sse_queues (send_task_notification t s) = sse_queues s"
  "sse_queues (snd (agent_message ev ps s)) = sse_queues s"
  "sse_queues (snd (default_artifact ev ps app s)) = sse_queues s"
  "sse_queues (snd (update_store tid st arts s)) = sse_queues s"
  "sse_queues (snd (publish_artifact p artifact s)) = sse_queues s"
  "sse_queues (snd (upsert_task p s)) = sse_queues s"
  by (auto simp: send_task_notification_def send_push_notification_def agent_message_def
        default_artifact_def draw_uuid_def update_store_def publish_artifact_def upsert_task_def
        Let_def split: option.splits)

lemma stream_loop_enqueues_nothing:
  "sse_queues (snd (stream_loop ev p items s)) = sse_queues s"
proof (cases items)
  case Nil
  then show ?thesis by simp
next
  case (Cons item rest)
  have u: "sse_queues s2 = sse_queues s'" if "update_store tid st arts s' = (r, s2)" for tid st arts s' r s2
    using sse_queues_kept(4) [of tid st arts s'] that by simp
  have pa: "sse_queues s3 = sse_queues s'" if "publish_artifact p artifact s' = (r, s3)" for artifact s' r s3
    using sse_queues_kept(5) [of p artifact s'] that by simp
  have am: "sse_queues s' = sse_queues s" if "agent_message ev ps s = (m, s')" for ps m s'
    using sse_queues_kept(2) [of ev ps s] that by simp
  have da: "sse_queues s' = sse_queues s" if "default_artifact ev ps app s = (a, s')" for ps app a s'
    using sse_queues_kept(3) [of ev ps app s] that by simp
  show ?thesis
    unfolding Cons
    by (auto simp: Let_def split: prod.splits sum.splits if_splits dest!: u pa am da)
qed

lemma stream_loop_fails_on_first_chunk:
  assumes "map_of (tasks s) (tsp_id p) = Some t0"
  shows "fst (stream_loop ev p (item # rest) s) = Inl (ValidationError ''Field required'')"
  using assms
  by (auto simp: Let_def update_store_def publish_artifact_def agent_message_def
        default_artifact_def draw_uuid_def split: prod.splits sum.splits)

lemma run_streaming_agent_enqueues_nothing:
  "sse_queues (snd (run_streaming_agent ev request s)) = sse_queues s"
proof (cases "get_user_query (str_params request)")
  case (Inl e)
  then show ?thesis by (simp add: run_streaming_agent_def)
next
  case (Inr query)
  obtain items fails where st: "stream ev query (sessionId (str_params request)) = (items, fails)"
    by (cases "stream ev query (sessionId (str_params request))")
  obtain r s1 where sl: "stream_loop ev (str_params request) items
       (s\<lparr>journal := journal s @ [AgentInvoked query (sessionId (str_params request))]\<rparr>) = (r, s1)"
    by (cases "stream_loop ev (str_params request) items
       (s\<lparr>journal := journal s @ [AgentInvoked query (sessionId (str_params request))]\<rparr>)")
  from stream_loop_enqueues_nothing [of ev "str_params request" items
       "s\<lparr>journal := journal s @ [AgentInvoked query (sessionId (str_params request))]\<rparr>"] sl
  have q: "sse_queues s1 = sse_queues s" by simp
  show ?thesis
    using Inr st sl q
    by (simp add: run_streaming_agent_def Let_def InternalError_def split: option.splits)
qed

lemma request_id_SomeD:
  assumes "request_id body = Some x"
  shows "\<exists>j. (\<forall>d. dict_get body ''id'' d = Inr j) \<and> validate_id j = Inr (Some x)"
proof -
  from assms obtain kvs where b: "body = JObj kvs"
    by (cases body) (simp_all add: request_id_def)
  with assms obtain j where j: "map_of kvs ''id'' = Some j" "json_id j = Some x"
    by (auto simp: request_id_def split: option.splits)
  from j(2) have "validate_id j = Inr (Some x)"
    by (cases j) (simp_all add: validate_id_def)
  with b j(1) show ?thesis by (auto simp: dict_get_def)
qed

lemma parse_message_send_id:
  assumes "parse_message_send body = Inr req" "request_id body = Some x"
  shows "msr_id req = Some x"
proof -
  from request_id_SomeD [OF assms(2)] obtain j where
    j: "dict_get body ''id'' (JStr ''auto'') = Inr j" "validate_id j = Inr (Some x)"
    by blast
  with assms(1) show ?thesis
    by (auto simp: parse_message_send_def split: sum.splits)
qed

lemma on_a2a_message_send_echoes_id:
  "\<exists>resp. fst (on_a2a_message_send ev request s) = Inr resp \<and> rsp_id resp = msr_id request"
  by (simp add: on_a2a_message_send_def message_send_failed_def Let_def split_beta
      split: agent_outcome.splits)

lemma invalid_request_reply_echoes_id:
  assumes "request_id body = Some x"
  shows "invalid_request_reply body e
     = JSONResponse \<lparr>rsp_id = Some x, result = None,
          error = Some \<lparr>code = - 32600, err_message = ''Invalid JSON-RPC Request'',
                        err_data = Some (JStr (exn_str e))\<rparr>\<rparr> 400"
proof -
  from request_id_SomeD [OF assms] obtain j where
    "dict_get body ''id'' JNull = Inr j" "validate_id j = Inr (Some x)"
    by blast
  then show ?thesis
    by (simp add: invalid_request_reply_def InvalidRequestError_def)
qed

lemma handle_exception_id_null:
  "handle_exception e = JSONResponse resp c \<Longrightarrow> rsp_id resp = None \<and> c = 400"
  by (auto simp: handle_exception_def split: sum.splits)

lemma read_method_message_send:
  "read_method body_message_send = Inr (JStr ''message/send'')"
  by (simp add: read_method_def dict_get_def dict_keys_def body_message_send_def)

lemma collect_parts_texts:
  "collect_parts items acc = Inr parts \<Longrightarrow>
     concat_text_parts parts = concat_text_parts acc @ concat (map json_part_text items)"
proof (induction items arbitrary: acc)
  case Nil
  then show ?case by simp
next
  case (Cons part_data rest)
  show ?case
  proof (cases part_data)
    case (JObj kvs)
    show ?thesis
    proof (cases "map_of kvs ''kind'' = Some (JStr ''text'')")
      case True
      with Cons.prems JObj obtain t m where
        t: "validate_str (case map_of kvs ''text'' of None \<Rightarrow> JStr [] | Some v \<Rightarrow> v) = Inr t"
        and r: "collect_parts rest (acc @ [A2ATextPart t m]) = Inr parts"
        by (auto simp: dict_get_def split: sum.splits)
      from t have jt: "json_part_text part_data = t"
        using JObj True by (auto simp: validate_str_def split: option.splits json.splits)
      from Cons.IH [OF r] jt show ?thesis
        by (simp add: concat_text_parts_def)
    next
      case False
      with Cons.prems JObj have r: "collect_parts rest acc = Inr parts"
        by (auto simp: dict_get_def split: option.splits if_splits)
      from False JObj have "json_part_text part_data = []" by simp
      with Cons.IH [OF r] show ?thesis by simp
    qed
  qed (insert Cons.prems, simp_all add: dict_get_def)
qed

lemma parse_message_send_parts:
  assumes "parse_message_send body = Inr req"
  shows "concat_text_parts (a2a_parts (msr_message req))
           = concat (map json_part_text (message_parts_json body))"
proof -
  from assms obtain params message_data parts_json items parts where
    "dict_get body ''params'' (JObj []) = Inr params"
    "dict_get params ''message'' (JObj []) = Inr message_data"
    "dict_get message_data ''parts'' (JArr []) = Inr parts_json"
    "py_iter parts_json = Inr items"
    "collect_parts items [] = Inr parts"
    "a2a_parts (msr_message req) = parts"
    by (auto simp: parse_message_send_def split: sum.splits)
  with collect_parts_texts [of items "[]" parts] show ?thesis
    by (simp add: message_parts_json_def concat_text_parts_def)
qed

lemma handle_exception_codes:
  "\<exists>err. handle_exception e = JSONResponse \<lparr>rsp_id = None, result = None, error = Some err\<rparr> 400
        \<and> (code err = - 32700 \<or> code err = - 32600 \<or> code err = - 32603)"
  by (cases e)
     (simp_all add: handle_exception_def JSONParseError_def InvalidRequestError_def InternalError_def)

lemma invalid_request_reply_codes:
  "\<exists>i err. invalid_request_reply body e
              = JSONResponse \<lparr>rsp_id = i, result = None, error = Some err\<rparr> 400
        \<and> (code err = - 32700 \<or> code err = - 32600 \<or> code err = - 32603)"
proof (cases "dict_get body ''id'' JNull")
  case (Inl e')
  with handle_exception_codes [of e'] show ?thesis
    by (auto simp: invalid_request_reply_def)
next
  case (Inr j)
  show ?thesis
  proof (cases "validate_id j")
    case (Inl e')
    with Inr handle_exception_codes [of e'] show ?thesis
      by (auto simp: invalid_request_reply_def InvalidRequestError_def)
  next
    case (Inr i)
    with \<open>dict_get body ''id'' JNull = Inr j\<close> show ?thesis
      by (simp add: invalid_request_reply_def InvalidRequestError_def)
  qed
qed

lemma on_a2a_message_send_no_error:
  "\<exists>resp. fst (on_a2a_message_send ev request s) = Inr resp \<and> error resp = None"
  by (simp add: on_a2a_message_send_def message_send_failed_def Let_def split_beta
      split: agent_outcome.splits)

lemma read_method_is_method:
  "read_method body = Inr m \<Longrightarrow> dict_get body ''method'' JNull = Inr m"
  by (auto simp: read_method_def split: sum.splits)

lemma process_request_never_method_not_found:
  assumes "fst (process_request ev raw s) = JSONResponse resp c"
  shows "map_option code (error resp) \<noteq> Some (- 32601)"
proof (cases raw)
  case NotJSON
  with assms handle_exception_codes [of JSONDecodeError] show ?thesis
    by (auto simp: process_request_def)
next
  case (Decoded body)
  show ?thesis
  proof (cases "read_method body")
    case (Inl e)
    with assms Decoded handle_exception_codes [of e] show ?thesis
      by (auto simp: process_request_def)
  next
    case (Inr m)
    show ?thesis
    proof (cases "m = JStr ''message/send''")
      case False
      with assms Decoded Inr process_request_other_method [of body m ev s] show ?thesis
        by (auto simp: internal_error_response_def)
    next
      case True
      show ?thesis
      proof (cases "parse_message_send body")
        case (Inl e)
        with assms Decoded Inr True invalid_request_reply_codes [of body e] show ?thesis
          by (auto simp: process_request_def)
      next
        case (Inr req)
        from on_a2a_message_send_no_error [of ev req s] obtain r where
          "fst (on_a2a_message_send ev req s) = Inr r" "error r = None" by blast
        with assms Decoded \<open>read_method body = Inr m\<close> True Inr show ?thesis
          by (cases "on_a2a_message_send ev req s")
             (auto simp: process_request_def finish_request_def create_response_def)
      qed
    qed
  qed
qed

lemma parse_body_message_send:
  "parse_message_send body_message_send
     = Inr \<lparr>msr_id = Some (IdInt 7),
            msr_message = \<lparr>a2a_role = RoleUser,
               a2a_parts = [A2ATextPart ''Hello'' (Some ''text/plain'')],
               messageId = ''m1'', taskId = None, contextId = None\<rparr>\<rparr>"
  by (simp add: parse_message_send_def dict_get_def py_iter_def validate_str_def
        validate_opt_str_def validate_role_def validate_id_def body_message_send_def)

lemma on_a2a_message_send_depends_on_one_call:
  assumes u: "uuid4 ev' = uuid4 ev"
    and a: "invoke_async ev' (concat_text_parts (a2a_parts (msr_message request)))
             (message_send_session ev request s)
         = invoke_async ev (concat_text_parts (a2a_parts (msr_message request)))
             (message_send_session ev request s)"
  shows "on_a2a_message_send ev' request s = on_a2a_message_send ev request s"
proof -
  have d: "draw_uuid ev' = draw_uuid ev"
    using u by (simp add: draw_uuid_def fun_eq_iff)
  have o: "or_uuid ev' = or_uuid ev"
    by (intro ext) (simp add: or_uuid_def d split: option.splits)
  have a': "invoke_async ev' (extract_text (a2a_parts (msr_message request)))
             (fst (or_uuid ev (contextId (msr_message request))
                     (snd (or_uuid ev (taskId (msr_message request)) s))))
         = invoke_async ev (extract_text (a2a_parts (msr_message request)))
             (fst (or_uuid ev (contextId (msr_message request))
                     (snd (or_uuid ev (taskId (msr_message request)) s))))"
    using a by (simp only: message_send_session_def extract_text_eq)
  show ?thesis
    unfolding on_a2a_message_send_def d o Let_def split_beta a' ..
qed

lemma process_request_message_send:
  assumes "read_method body = Inr (JStr ''message/send'')" "parse_message_send body = Inr req"
  shows "process_request ev (Decoded body) s
     = (case on_a2a_message_send ev req s of
          (Inl e, s1) \<Rightarrow> (handle_exception e, s1)
        | (Inr r, s1) \<Rightarrow> (JSONResponse r 200, s1))"
  using assms
  by (simp add: process_request_def finish_request_def create_response_def
      split: prod.splits sum.splits)

section \<open>The claims\<close>

text \<open>
  C1, as the code has it. When the agent raises during a synchronous send:
  message/send catches the exception and answers with a result, a task whose status is
  FAILED; tasks/send logs the exception and raises it again as a \<open>ValueError\<close>, the
  stored task stays WORKING, and the server's \<open>_handle_exception\<close> turns the exception
  into a JSON-RPC error response with code -32603 and id null. Either way the caller
  gets a well-formed response and nothing crashes.
\<close>

theorem agent_exception_in_synchronous_send:
  "(invoke_async ev (concat_text_parts (a2a_parts (msr_message mreq)))
        (message_send_session ev mreq s) = AgentRaises m \<longrightarrow>
      (\<exists>t. fst (on_a2a_message_send ev mreq s)
              = Inr \<lparr>rsp_id = msr_id mreq, result = Some (ResultA2ATask t), error = None\<rparr>
           \<and> state (task_status t) = FAILED))
   \<and> (accepted ev request \<and> get_user_query (str_params request) = Inr query
        \<and> invoke_async ev query (sessionId (str_params request)) = AgentRaises m \<longrightarrow>
      fst (on_send_task ev request s) = Inl (ValueError (''Error invoking agent: '' @ m))
      \<and> (\<exists>t. map_of (tasks (snd (on_send_task ev request s))) (tsp_id (str_params request)) = Some t
             \<and> state (task_status t) = WORKING)
      \<and> handle_exception (ValueError (''Error invoking agent: '' @ m))
          = JSONResponse internal_error_response 400)"
proof (rule conjI; rule impI)
  assume "invoke_async ev (concat_text_parts (a2a_parts (msr_message mreq)))
        (message_send_session ev mreq s) = AgentRaises m"
  from on_a2a_message_send_agent_raises [OF this]
  show "\<exists>t. fst (on_a2a_message_send ev mreq s)
              = Inr \<lparr>rsp_id = msr_id mreq, result = Some (ResultA2ATask t), error = None\<rparr>
           \<and> state (task_status t) = FAILED"
    by blast
next
  assume a: "accepted ev request \<and> get_user_query (str_params request) = Inr query
        \<and> invoke_async ev query (sessionId (str_params request)) = AgentRaises m"
  from a on_send_task_accepted [of ev request s] obtain s1 where
    s1: "on_send_task ev request s = run_send_task ev request s1" by blast
  from a run_send_task_agent_raises [of request query ev m s1] s1
  show "fst (on_send_task ev request s) = Inl (ValueError (''Error invoking agent: '' @ m))
      \<and> (\<exists>t. map_of (tasks (snd (on_send_task ev request s))) (tsp_id (str_params request)) = Some t
             \<and> state (task_status t) = WORKING)
      \<and> handle_exception (ValueError (''Error invoking agent: '' @ m))
          = JSONResponse internal_error_response 400"
    by (simp add: internal_error_response_def)
qed

theorem agent_exception_in_synchronous_send_witness:
  "fst (on_a2a_message_send env_raise msg_M1 s0)
     = Inr \<lparr>rsp_id = Some (IdStr ''r1''),
            result = Some (ResultA2ATask
              \<lparr>task_id = ''T1'', task_contextId = ''C1'',
               task_status = \<lparr>state = FAILED,
                  status_message = Some (LegacyMessage
                     \<lparr>msg_role = RoleAgent, msg_parts = [TextPart ''Error: boom'']\<rparr>)\<rparr>,
               artifacts = None, history = None\<rparr>),
            error = None\<rparr>
   \<and> fst (on_send_task env_raise send_T1 s0) = Inl (ValueError ''Error invoking agent: boom'')
   \<and> handle_exception (ValueError ''Error invoking agent: boom'')
       = JSONResponse internal_error_response 400"
proof -
  have a: "invoke_async env_raise (concat_text_parts (a2a_parts (msr_message msg_M1)))
        (message_send_session env_raise msg_M1 s0) = AgentRaises ''boom''"
    by (simp add: env_raise_def)
  have b: "accepted env_raise send_T1"
    by (simp add: accepted_def validate_request_def env_raise_def env0_def send_T1_def)
  have c: "get_user_query (str_params send_T1) = Inr ''Hello''"
    by (simp add: get_user_query_def send_T1_def)
  have d: "invoke_async env_raise ''Hello'' (sessionId (str_params send_T1)) = AgentRaises ''boom''"
    by (simp add: env_raise_def)
  have e: "fst (on_a2a_message_send env_raise msg_M1 s0)
     = Inr \<lparr>rsp_id = Some (IdStr ''r1''),
            result = Some (ResultA2ATask
              \<lparr>task_id = ''T1'', task_contextId = ''C1'',
               task_status = \<lparr>state = FAILED,
                  status_message = Some (LegacyMessage
                     \<lparr>msg_role = RoleAgent, msg_parts = [TextPart ''Error: boom'']\<rparr>)\<rparr>,
               artifacts = None, history = None\<rparr>),
            error = None\<rparr>"
    by (simp add: on_a2a_message_send_def message_send_failed_def or_uuid_def Let_def
          env_raise_def msg_M1_def)
  from agent_exception_in_synchronous_send
         [of env_raise msg_M1 s0 "''boom''" send_T1 "''Hello''"] a b c d e
  show ?thesis by simp
qed

text \<open>C1 as stated fails for tasks/send: with an agent that raises, \<open>on_send_task\<close>
  raises a \<open>ValueError\<close> and the stored task is WORKING, not FAILED.\<close>

theorem tasks_send_reraises_agent_exception:
  "fst (on_send_task env_raise send_T1 s0) = Inl (ValueError ''Error invoking agent: boom'')
   \<and> map_option (\<lambda>t. state (task_status t))
        (map_of (tasks (snd (on_send_task env_raise send_T1 s0))) ''T1'') = Some WORKING"
  by (simp add: on_send_task_def run_send_task_def validate_request_def upsert_task_def
        update_store_def send_task_notification_def has_push_notification_info_def
        get_push_notification_info_def get_user_query_def
        env_raise_def env0_def send_T1_def s0_def Let_def)

text \<open>
  C2, as the code has it. A request whose method is none of the supported names is
  answered with a JSON-RPC error response (status 400, no result) whose code is not
  -32601, and the manager's state is untouched. No response of \<open>_process_request\<close>
  ever carries the code -32601: \<open>MethodNotFoundError\<close> is constructed nowhere.
\<close>

theorem unsupported_method_is_not_answered_method_not_found:
  "(dict_get body ''method'' JNull = Inr (JStr name) \<and> name \<notin> set supported_methods \<longrightarrow>
      is_error_reply_other_than (- 32601) (fst (process_request ev (Decoded body) s))
      \<and> snd (process_request ev (Decoded body) s) = s)
   \<and> (\<forall>resp c. fst (process_request ev raw s) = JSONResponse resp c
         \<longrightarrow> map_option code (error resp) \<noteq> Some (- 32601))"
proof (rule conjI)
  show "dict_get body ''method'' JNull = Inr (JStr name) \<and> name \<notin> set supported_methods \<longrightarrow>
      is_error_reply_other_than (- 32601) (fst (process_request ev (Decoded body) s))
      \<and> snd (process_request ev (Decoded body) s) = s"
  proof
    assume a: "dict_get body ''method'' JNull = Inr (JStr name) \<and> name \<notin> set supported_methods"
    then have n: "name \<noteq> ''message/send''" by (auto simp: supported_methods_def)
    show "is_error_reply_other_than (- 32601) (fst (process_request ev (Decoded body) s))
      \<and> snd (process_request ev (Decoded body) s) = s"
    proof (cases "read_method body")
      case (Inl e)
      with handle_exception_codes [of e] show ?thesis
        by (auto simp: process_request_def is_error_reply_other_than_def)
    next
      case (Inr m)
      with a read_method_is_method [of body m] have "m = JStr name" by simp
      with n Inr process_request_other_method [of body m ev s] show ?thesis
        by (simp add: is_error_reply_other_than_def internal_error_response_def)
    qed
  qed
next
  show "\<forall>resp c. fst (process_request ev raw s) = JSONResponse resp c
         \<longrightarrow> map_option code (error resp) \<noteq> Some (- 32601)"
    using process_request_never_method_not_found by blast
qed

theorem unsupported_method_is_not_answered_method_not_found_witness:
  "is_error_reply_other_than (- 32601)
      (fst (process_request env_reject (Decoded body_unknown_method) s0))
   \<and> snd (process_request env_reject (Decoded body_unknown_method) s0) = s0
   \<and> fst (process_request env_reject NotJSON s0)
       = JSONResponse \<lparr>rsp_id = None, result = None,
            error = Some \<lparr>code = - 32700, err_message = ''Invalid JSON payload'',
                          err_data = None\<rparr>\<rparr> 400"
proof -
  have a: "dict_get body_unknown_method ''method'' JNull = Inr (JStr ''tasks/doesNotExist'')"
    by (simp add: dict_get_def body_unknown_method_def)
  have b: "''tasks/doesNotExist'' \<notin> set supported_methods"
    by (simp add: supported_methods_def)
  have c: "fst (process_request env_reject NotJSON s0)
       = JSONResponse \<lparr>rsp_id = None, result = None,
            error = Some \<lparr>code = - 32700, err_message = ''Invalid JSON payload'',
                          err_data = None\<rparr>\<rparr> 400"
    by (simp add: process_request_def handle_exception_def JSONParseError_def)
  from unsupported_method_is_not_answered_method_not_found
         [of body_unknown_method "''tasks/doesNotExist''" env_reject s0 NotJSON] a b c
  show ?thesis by simp
qed

text \<open>C2 as stated fails for the method \<open>tasks/doesNotExist\<close>, which pydantic rejects:
  the answer carries the code -32603.\<close>

theorem unknown_method_is_answered_with_internal_error:
  "process_request env_reject (Decoded body_unknown_method) s0
     = (JSONResponse
          \<lparr>rsp_id = None, result = None,
           error = Some \<lparr>code = - 32603, err_message = ''Internal server error'',
                         err_data = None\<rparr>\<rparr> 400, s0)
   \<and> validate_python env_reject body_unknown_method = Inl (ValidationError ''union_tag_invalid'')"
proof -
  have b: "JStr ''tasks/doesNotExist'' \<noteq> JStr ''message/send''" by simp
  show ?thesis
    using process_request_other_method [OF read_method_unknown b, of env_reject s0]
    by (simp add: internal_error_response_def env_reject_def)
qed

text \<open>
  C3, run on the code. Scenario B: the subscriber's stream is opened as queue 0, the agent
  yields two working chunks and a completing one. On the first chunk
  \<open>TaskStatusUpdateEvent(id=..., ...)\<close> fails for want of \<open>taskId\<close> and
  \<open>contextId\<close>, the handler of the exception fails in turn on
  \<open>InternalError(message=...)\<close>, and the producer ends with a \<open>TypeError\<close>. The
  subscriber's queue is left empty: none of the four events of the claim is delivered.
\<close>

theorem streaming_scenario_B_delivers_no_event:
  "fst (on_send_task_subscribe env0 subscribe_T2 s0) = Inr (EventStream 0)
   \<and> stream env0 ''Hello'' ''C1'' = (chunks_B, None)
   \<and> fst (run_streaming_agent env0 subscribe_T2 (snd (on_send_task_subscribe env0 subscribe_T2 s0)))
       = Inl (TypeError ''__init__() got an unexpected keyword argument'')
   \<and> sse_queues (snd (run_streaming_agent env0 subscribe_T2
                         (snd (on_send_task_subscribe env0 subscribe_T2 s0))))
       = [(0, [])]"
proof -
  have v: "validate_request env0 (str_id subscribe_T2) (str_params subscribe_T2) = Inr None"
    by (simp add: validate_request_def env0_def subscribe_T2_def send_T1_def)
  have sub: "on_send_task_subscribe env0 subscribe_T2 s0
      = (Inr (EventStream 0),
         (snd (upsert_task (str_params subscribe_T2) s0))
           \<lparr>task_sse_subscribers := [(''T2'', [0])], sse_queues := [(0, [])]\<rparr>)"
    using v
    by (simp add: on_send_task_subscribe_def setup_sse_consumer_def upsert_task_def Let_def
          subscribe_T2_def send_T1_def s0_def)
  let ?s = "(snd (upsert_task (str_params subscribe_T2) s0))
           \<lparr>task_sse_subscribers := [(''T2'', [0])], sse_queues := [(0, [])]\<rparr>"
  have q: "get_user_query (str_params subscribe_T2) = Inr ''Hello''"
    by (simp add: get_user_query_def subscribe_T2_def send_T1_def)
  have st: "stream env0 ''Hello'' ''C1'' = (chunks_B, None)"
    by (simp add: env0_def)
  have sid: "sessionId (str_params subscribe_T2) = ''C1''"
    by (simp add: subscribe_T2_def send_T1_def)
  have t: "map_of (tasks (?s\<lparr>journal := journal ?s @ [AgentInvoked ''Hello'' ''C1'']\<rparr>))
             (tsp_id (str_params subscribe_T2)) = Some (fst (upsert_task (str_params subscribe_T2) s0))"
    by (simp add: upsert_task_facts)
  have loop: "fst (stream_loop env0 (str_params subscribe_T2) chunks_B
                 (?s\<lparr>journal := journal ?s @ [AgentInvoked ''Hello'' ''C1'']\<rparr>))
       = Inl (ValidationError ''Field required'')"
    unfolding chunks_B_def by (rule stream_loop_fails_on_first_chunk [OF t])
  have run: "fst (run_streaming_agent env0 subscribe_T2 ?s)
       = Inl (TypeError ''__init__() got an unexpected keyword argument'')"
    using q st sid loop
    by (simp add: run_streaming_agent_def Let_def split_beta InternalError_def)
  have queues: "sse_queues (snd (run_streaming_agent env0 subscribe_T2 ?s)) = [(0, [])]"
    by (simp add: run_streaming_agent_enqueues_nothing)
  from sub st run queues show ?thesis by simp
qed

text \<open>
  C4, as the code has it. If the verification challenge against the configuration's URL
  fails, \<open>set_push_notification_info\<close> returns false and stores nothing: the registry
  is what it was. A lookup for the task id therefore finds what it found before: nothing
  when nothing was registered for the task, the earlier configuration otherwise. A
  tasks/send request that carries such a configuration ends in an error: the manager's
  state is untouched, a response it returns has an error and no result, and an exception
  it raises is turned into an error response by the server.
\<close>

theorem failed_verification_stores_nothing:
  assumes "\<not> verify_push_notification_url ev (url cfg)"
  shows "set_push_notification_info ev tid cfg s = (False, s)
     \<and> get_push_notification_info tid (snd (set_push_notification_info ev tid cfg s))
         = get_push_notification_info tid s
     \<and> (get_push_notification_info tid s = None \<longrightarrow>
          get_push_notification_info tid (snd (set_push_notification_info ev tid cfg s)) = None)
     \<and> (pushNotification (str_params request) = Some cfg \<longrightarrow>
          snd (on_send_task ev request s) = s
          \<and> (\<forall>resp. fst (on_send_task ev request s) = Inr resp
                \<longrightarrow> result resp = None \<and> error resp \<noteq> None)
          \<and> (\<forall>e. fst (on_send_task ev request s) = Inl e \<longrightarrow>
                (\<exists>err. handle_exception e
                    = JSONResponse \<lparr>rsp_id = None, result = None, error = Some err\<rparr> 400)))"
proof -
  have reg: "set_push_notification_info ev t cfg s = (False, s)" for t
    using assms by (simp add: set_push_notification_info_def)
  have send: "snd (on_send_task ev request s) = s
          \<and> (\<forall>resp. fst (on_send_task ev request s) = Inr resp
                \<longrightarrow> result resp = None \<and> error resp \<noteq> None)
          \<and> (\<forall>e. fst (on_send_task ev request s) = Inl e \<longrightarrow>
                (\<exists>err. handle_exception e
                    = JSONResponse \<lparr>rsp_id = None, result = None, error = Some err\<rparr> 400))"
    if p: "pushNotification (str_params request) = Some cfg"
  proof (cases "validate_request ev (str_id request) (str_params request)")
    case (Inl e)
    with validate_request_raises [of ev "str_id request" "str_params request" e]
    show ?thesis by (simp add: on_send_task_def)
  next
    case (Inr v)
    show ?thesis
    proof (cases v)
      case None
      with Inr p reg show ?thesis
        by (simp add: on_send_task_def InvalidParamsError_def)
    next
      case (Some r)
      with Inr validate_request_no_result [of ev "str_id request" "str_params request" r]
      show ?thesis
        by (cases "error r") (auto simp: on_send_task_def)
    qed
  qed
  from reg send show ?thesis by simp
qed

theorem failed_verification_stores_nothing_witness:
  "set_push_notification_info env0 ''T1'' cfg_unverified s0 = (False, s0)
   \<and> get_push_notification_info ''T1''
        (snd (set_push_notification_info env0 ''T1'' cfg_unverified s0)) = None
   \<and> on_send_task env0 send_push s0
        = (Inl (TypeError ''__init__() got an unexpected keyword argument''), s0)"
proof -
  have nv: "\<not> verify_push_notification_url env0 (url cfg_unverified)"
    by (simp add: env0_def cfg_unverified_def)
  have p: "pushNotification (str_params send_push) = Some cfg_unverified"
    by (simp add: send_push_def send_T1_def cfg_unverified_def)
  have none: "get_push_notification_info ''T1'' s0 = None"
    by (simp add: get_push_notification_info_def s0_def)
  have v: "validate_request env0 (str_id send_push) (str_params send_push) = Inr None"
    by (simp add: validate_request_def env0_def send_push_def send_T1_def)
  have r: "fst (on_send_task env0 send_push s0)
             = Inl (TypeError ''__init__() got an unexpected keyword argument'')"
    using v p nv
    by (simp add: on_send_task_def set_push_notification_info_def InvalidParamsError_def)
  from failed_verification_stores_nothing [OF nv, of "''T1''" s0 send_push] p none r
  show ?thesis by (simp add: prod_eq_iff)
qed

text \<open>C4 as stated fails for a task that already has a configuration: after a verified
  registration for \<open>T1\<close>, a registration whose URL fails verification returns false,
  and the lookup for \<open>T1\<close> finds the earlier configuration, not absence.\<close>

theorem failed_reregistration_keeps_the_earlier_config:
  "set_push_notification_info env0 ''T1'' cfg_verified s0 = (True, s_registered)
   \<and> verify_push_notification_url env0 (url cfg_unverified) = False
   \<and> set_push_notification_info env0 ''T1'' cfg_unverified s_registered = (False, s_registered)
   \<and> get_push_notification_info ''T1''
        (snd (set_push_notification_info env0 ''T1'' cfg_unverified s_registered))
       = Some cfg_verified"
  by (simp add: set_push_notification_info_def super_set_push_notification_info_def
        get_push_notification_info_def env0_def cfg_verified_def cfg_unverified_def
        s_registered_def s0_def)

text \<open>
  C5, as the code has it. An accepted tasks/send request whose first part is text and
  whose agent answer has its content and its require-user-input flag: the handler upserts
  the task, writes WORKING, calls the agent once, writes INPUT_REQUIRED with the agent's
  message when user input is required and COMPLETED with a new artifact otherwise, and
  returns the stored task (history cut to the requested length). A message/send request
  leaves the task store as it is: the handler calls the agent and answers with a task
  built for the response, COMPLETED with one artifact when the agent reports completion,
  INPUT_REQUIRED with the agent's message otherwise.
\<close>

theorem synchronous_send_lifecycle:
  "(accepted ev request \<and> get_user_query (str_params request) = Inr query
      \<and> invoke_async ev query (sessionId (str_params request)) = AgentReturns resp
      \<and> content resp = Some c \<and> require_user_input resp = Some rui \<longrightarrow>
     (\<exists>t. map_of (tasks (snd (on_send_task ev request s))) (tsp_id (str_params request)) = Some t
        \<and> fst (on_send_task ev request s)
            = Inr \<lparr>rsp_id = str_id request,
                   result = Some (ResultTask
                     (append_task_history t (historyLength (str_params request)))),
                   error = None\<rparr>
        \<and> (if rui
            then state (task_status t) = INPUT_REQUIRED
               \<and> (\<exists>msg. status_message (task_status t) = Some (A2AMsg msg)
                      \<and> a2a_role msg = RoleAgent
                      \<and> a2a_parts msg = [A2ATextPart c (Some ''text/plain'')])
            else state (task_status t) = COMPLETED
               \<and> (\<exists>old a. artifacts t = Some (old @ [a])
                      \<and> art_parts a = [A2ATextPart c (Some ''text/plain'')])))
     \<and> journal (snd (on_send_task ev request s))
         = journal s @ [Upserted (tsp_id (str_params request)),
                        StatusWritten (tsp_id (str_params request)) WORKING,
                        AgentInvoked query (sessionId (str_params request)),
                        StatusWritten (tsp_id (str_params request))
                          (if rui then INPUT_REQUIRED else COMPLETED)])
   \<and> (invoke_async ev (concat_text_parts (a2a_parts (msr_message mreq)))
          (message_send_session ev mreq s) = AgentReturns mresp \<longrightarrow>
     tasks (snd (on_a2a_message_send ev mreq s)) = tasks s
     \<and> (\<exists>t. fst (on_a2a_message_send ev mreq s)
            = Inr \<lparr>rsp_id = msr_id mreq, result = Some (ResultA2ATask t), error = None\<rparr>
          \<and> (if is_task_complete mresp = Some True
              then state (task_status t) = COMPLETED
                 \<and> (\<exists>a. artifacts t = Some [a]
                      \<and> art_parts a = [A2ATextPart (case content mresp of None \<Rightarrow> ''Task completed''
                                                     | Some c \<Rightarrow> c) (Some ''text/plain'')])
              else task_status t
                     = \<lparr>state = INPUT_REQUIRED,
                        status_message = Some (LegacyMessage
                           \<lparr>msg_role = RoleAgent,
                            msg_parts = [TextPart (case content mresp of None \<Rightarrow> ''Task in progress''
                                                   | Some c \<Rightarrow> c)]\<rparr>)\<rparr>
                 \<and> artifacts t = None)))"
proof (rule conjI; rule impI)
  assume a: "accepted ev request \<and> get_user_query (str_params request) = Inr query
      \<and> invoke_async ev query (sessionId (str_params request)) = AgentReturns resp
      \<and> content resp = Some c \<and> require_user_input resp = Some rui"
  from a on_send_task_accepted [of ev request s] obtain s1 where
    s1: "on_send_task ev request s = run_send_task ev request s1" "journal s1 = journal s"
    by blast
  from a have q: "get_user_query (str_params request) = Inr query"
    and r: "invoke_async ev query (sessionId (str_params request)) = AgentReturns resp"
    and c: "content resp = Some c" and u: "require_user_input resp = Some rui"
    by simp_all
  from run_send_task_agent_returns [OF q r c u, of s1] s1
  show "(\<exists>t. map_of (tasks (snd (on_send_task ev request s))) (tsp_id (str_params request)) = Some t
        \<and> fst (on_send_task ev request s)
            = Inr \<lparr>rsp_id = str_id request,
                   result = Some (ResultTask
                     (append_task_history t (historyLength (str_params request)))),
                   error = None\<rparr>
        \<and> (if rui
            then state (task_status t) = INPUT_REQUIRED
               \<and> (\<exists>msg. status_message (task_status t) = Some (A2AMsg msg)
                      \<and> a2a_role msg = RoleAgent
                      \<and> a2a_parts msg = [A2ATextPart c (Some ''text/plain'')])
            else state (task_status t) = COMPLETED
               \<and> (\<exists>old a. artifacts t = Some (old @ [a])
                      \<and> art_parts a = [A2ATextPart c (Some ''text/plain'')])))
     \<and> journal (snd (on_send_task ev request s))
         = journal s @ [Upserted (tsp_id (str_params request)),
                        StatusWritten (tsp_id (str_params request)) WORKING,
                        AgentInvoked query (sessionId (str_params request)),
                        StatusWritten (tsp_id (str_params request))
                          (if rui then INPUT_REQUIRED else COMPLETED)]"
    by (simp only:) blast
next
  assume "invoke_async ev (concat_text_parts (a2a_parts (msr_message mreq)))
          (message_send_session ev mreq s) = AgentReturns mresp"
  from on_a2a_message_send_agent_returns [OF this] on_a2a_message_send_keeps_store [of ev mreq s]
  show "tasks (snd (on_a2a_message_send ev mreq s)) = tasks s
     \<and> (\<exists>t. fst (on_a2a_message_send ev mreq s)
            = Inr \<lparr>rsp_id = msr_id mreq, result = Some (ResultA2ATask t), error = None\<rparr>
          \<and> (if is_task_complete mresp = Some True
              then state (task_status t) = COMPLETED
                 \<and> (\<exists>a. artifacts t = Some [a]
                      \<and> art_parts a = [A2ATextPart (case content mresp of None \<Rightarrow> ''Task completed''
                                                     | Some c \<Rightarrow> c) (Some ''text/plain'')])
              else task_status t
                     = \<lparr>state = INPUT_REQUIRED,
                        status_message = Some (LegacyMessage
                           \<lparr>msg_role = RoleAgent,
                            msg_parts = [TextPart (case content mresp of None \<Rightarrow> ''Task in progress''
                                                   | Some c \<Rightarrow> c)]\<rparr>)\<rparr>
                 \<and> artifacts t = None))"
    by blast
qed

theorem synchronous_send_lifecycle_witness:
  "journal (snd (on_send_task env0 send_T1 s0))
     = [Upserted ''T1'', StatusWritten ''T1'' WORKING, AgentInvoked ''Hello'' ''C1'',
        StatusWritten ''T1'' COMPLETED]
   \<and> journal (snd (on_send_task env_input send_T1 s0))
     = [Upserted ''T1'', StatusWritten ''T1'' WORKING, AgentInvoked ''Hello'' ''C1'',
        StatusWritten ''T1'' INPUT_REQUIRED]
   \<and> tasks (snd (on_a2a_message_send env0 msg_M1 s0)) = []"
proof -
  let ?r = "\<lparr>is_task_complete = Some True, require_user_input = Some False, content = Some ''Hi''\<rparr>"
  let ?i = "\<lparr>is_task_complete = Some False, require_user_input = Some True,
             content = Some ''Which one?''\<rparr>"
  have a: "accepted env0 send_T1" "accepted env_input send_T1"
    by (simp_all add: accepted_def validate_request_def env_input_def env0_def send_T1_def)
  have q: "get_user_query (str_params send_T1) = Inr ''Hello''"
    by (simp add: get_user_query_def send_T1_def)
  have r: "invoke_async env0 ''Hello'' (sessionId (str_params send_T1)) = AgentReturns ?r"
    "invoke_async env_input ''Hello'' (sessionId (str_params send_T1)) = AgentReturns ?i"
    by (simp_all add: env_input_def env0_def)
  have m: "invoke_async env0 (concat_text_parts (a2a_parts (msr_message msg_M1)))
          (message_send_session env0 msg_M1 s0) = AgentReturns ?r"
    by (simp add: env0_def)
  have z: "journal s0 = []" "tasks s0 = []" "tsp_id (str_params send_T1) = ''T1''"
    "sessionId (str_params send_T1) = ''C1''"
    by (simp_all add: s0_def send_T1_def)
  from synchronous_send_lifecycle
         [of env0 send_T1 "''Hello''" ?r "''Hi''" False s0 msg_M1 ?r] a q r m z
  have one: "journal (snd (on_send_task env0 send_T1 s0))
     = [Upserted ''T1'', StatusWritten ''T1'' WORKING, AgentInvoked ''Hello'' ''C1'',
        StatusWritten ''T1'' COMPLETED]
   \<and> tasks (snd (on_a2a_message_send env0 msg_M1 s0)) = []"
    by simp
  from synchronous_send_lifecycle
         [of env_input send_T1 "''Hello''" ?i "''Which one?''" True s0 msg_M1 ?r] a q r z
  have two: "journal (snd (on_send_task env_input send_T1 s0))
     = [Upserted ''T1'', StatusWritten ''T1'' WORKING, AgentInvoked ''Hello'' ''C1'',
        StatusWritten ''T1'' INPUT_REQUIRED]"
    by simp
  from one two show ?thesis by simp
qed

text \<open>C5 as stated fails for message/send: nothing is upserted and no WORKING status is
  written; the only effect is the agent's call.\<close>

theorem message_send_bypasses_the_store:
  "tasks (snd (on_a2a_message_send env0 msg_M1 s0)) = []
   \<and> journal (snd (on_a2a_message_send env0 msg_M1 s0)) = [AgentInvoked ''Hello'' ''C1'']"
  by (simp add: on_a2a_message_send_def extract_text_def or_uuid_def draw_uuid_def Let_def
        env0_def msg_M1_def s0_def)

text \<open>
  C6. A response passes \<open>validate_result_or_error\<close> only with exactly one of a result
  and an error: the constructor succeeds exactly when one of the two is given, what it
  returns has exactly one, and so has every JSON response that \<open>_process_request\<close>
  sends.
\<close>

theorem response_has_exactly_one_of_result_and_error:
  "(\<forall>resp. JSONRPCResponse_new i r e = Inr resp \<longrightarrow> exactly_one_of_result_error resp)
   \<and> ((\<exists>resp. JSONRPCResponse_new i r e = Inr resp) \<longleftrightarrow> ((r = None) \<noteq> (e = None)))
   \<and> (\<forall>resp c. fst (process_request ev raw s) = JSONResponse resp c
          \<longrightarrow> exactly_one_of_result_error resp)"
proof (intro conjI allI impI)
  fix resp assume "JSONRPCResponse_new i r e = Inr resp"
  then show "exactly_one_of_result_error resp" by (rule JSONRPCResponse_new_exactly_one)
next
  show "(\<exists>resp. JSONRPCResponse_new i r e = Inr resp) \<longleftrightarrow> ((r = None) \<noteq> (e = None))"
    by (auto simp: JSONRPCResponse_new_def validate_result_or_error_def)
next
  fix resp c assume "fst (process_request ev raw s) = JSONResponse resp c"
  then show "exactly_one_of_result_error resp" by (rule process_request_exactly_one)
qed

theorem response_has_exactly_one_of_result_and_error_witness:
  "JSONRPCResponse_new (Some (IdInt 1)) None (Some (MethodNotFoundError None))
     = Inr \<lparr>rsp_id = Some (IdInt 1), result = None, error = Some (MethodNotFoundError None)\<rparr>
   \<and> exactly_one_of_result_error
        \<lparr>rsp_id = Some (IdInt 1), result = None, error = Some (MethodNotFoundError None)\<rparr>
   \<and> fst (process_request env0 NotJSON s0)
       = JSONResponse \<lparr>rsp_id = None, result = None,
           error = Some \<lparr>code = - 32700, err_message = ''Invalid JSON payload'',
                         err_data = None\<rparr>\<rparr> 400
   \<and> exactly_one_of_result_error
        \<lparr>rsp_id = None, result = None,
         error = Some \<lparr>code = - 32700, err_message = ''Invalid JSON payload'',
                       err_data = None\<rparr>\<rparr>"
proof -
  have a: "JSONRPCResponse_new (Some (IdInt 1)) None (Some (MethodNotFoundError None))
     = Inr \<lparr>rsp_id = Some (IdInt 1), result = None, error = Some (MethodNotFoundError None)\<rparr>"
    by simp
  have b: "fst (process_request env0 NotJSON s0)
       = JSONResponse \<lparr>rsp_id = None, result = None,
           error = Some \<lparr>code = - 32700, err_message = ''Invalid JSON payload'',
                         err_data = None\<rparr>\<rparr> 400"
    by (simp add: process_request_def handle_exception_def JSONParseError_def)
  from response_has_exactly_one_of_result_and_error
         [of "Some (IdInt 1)" None "Some (MethodNotFoundError None)" env0 NotJSON s0] a b
  show ?thesis by blast
qed

text \<open>
  C7, as the code has it. A message/send request that is a JSON object, with params
  absent or an object, and whose id X is an integer or a string, is answered under the
  id X, whether it is served or rejected as invalid. Every response that
  \<open>_handle_exception\<close> builds has id null, whatever the exception; a body that is not
  JSON is answered so, with the code -32700.
\<close>

theorem response_id_echo:
  "(read_method body = Inr (JStr ''message/send'') \<and> request_id body = Some x \<longrightarrow>
      (\<exists>resp c. fst (process_request ev (Decoded body) s) = JSONResponse resp c
                \<and> rsp_id resp = Some x))
   \<and> (\<forall>e resp c. handle_exception e = JSONResponse resp c \<longrightarrow> rsp_id resp = None)
   \<and> fst (process_request ev NotJSON s)
       = JSONResponse \<lparr>rsp_id = None, result = None,
            error = Some \<lparr>code = - 32700, err_message = ''Invalid JSON payload'',
                          err_data = None\<rparr>\<rparr> 400"
proof (intro conjI)
  show "read_method body = Inr (JStr ''message/send'') \<and> request_id body = Some x \<longrightarrow>
      (\<exists>resp c. fst (process_request ev (Decoded body) s) = JSONResponse resp c
                \<and> rsp_id resp = Some x)"
  proof
    assume a: "read_method body = Inr (JStr ''message/send'') \<and> request_id body = Some x"
    show "\<exists>resp c. fst (process_request ev (Decoded body) s) = JSONResponse resp c
                \<and> rsp_id resp = Some x"
    proof (cases "parse_message_send body")
      case (Inl e)
      with a invalid_request_reply_echoes_id [of body x e] show ?thesis
        by (simp add: process_request_def)
    next
      case (Inr req)
      from on_a2a_message_send_echoes_id [of ev req s] obtain resp where
        r: "fst (on_a2a_message_send ev req s) = Inr resp" "rsp_id resp = msr_id req"
        by blast
      from a Inr parse_message_send_id [of body req x] have "msr_id req = Some x" by simp
      with a Inr r show ?thesis
        by (cases "on_a2a_message_send ev req s")
           (simp add: process_request_def finish_request_def create_response_def)
    qed
  qed
next
  show "\<forall>e resp c. handle_exception e = JSONResponse resp c \<longrightarrow> rsp_id resp = None"
    using handle_exception_id_null by blast
next
  show "fst (process_request ev NotJSON s)
       = JSONResponse \<lparr>rsp_id = None, result = None,
            error = Some \<lparr>code = - 32700, err_message = ''Invalid JSON payload'',
                          err_data = None\<rparr>\<rparr> 400"
    by (simp add: process_request_def handle_exception_def JSONParseError_def)
qed

theorem response_id_echo_witness:
  "(\<exists>resp c. fst (process_request env0 (Decoded body_message_send) s0) = JSONResponse resp c
                \<and> rsp_id resp = Some (IdInt 7))
   \<and> handle_exception JSONDecodeError
       = JSONResponse \<lparr>rsp_id = None, result = None,
            error = Some \<lparr>code = - 32700, err_message = ''Invalid JSON payload'',
                          err_data = None\<rparr>\<rparr> 400"
proof -
  have a: "request_id body_message_send = Some (IdInt 7)"
    by (simp add: request_id_def body_message_send_def)
  have b: "handle_exception JSONDecodeError
       = JSONResponse \<lparr>rsp_id = None, result = None,
            error = Some \<lparr>code = - 32700, err_message = ''Invalid JSON payload'',
                          err_data = None\<rparr>\<rparr> 400"
    by (simp add: handle_exception_def JSONParseError_def)
  from response_id_echo [of body_message_send "IdInt 7" env0 s0] read_method_message_send a b
  show ?thesis by simp
qed

text \<open>C7 as stated fails for a message/send request with id 5 whose params are an
  array: the body is valid JSON, and the response has id null.\<close>

theorem array_params_request_gets_null_id:
  "request_id body_params_array = Some (IdInt 5)
   \<and> fst (process_request env0 (Decoded body_params_array) s0)
       = JSONResponse internal_error_response 400
   \<and> rsp_id internal_error_response = None"
  by (simp add: request_id_def body_params_array_def process_request_def read_method_def
        dict_get_def dict_keys_def handle_exception_def InternalError_def
        internal_error_response_def)

text \<open>
  C8, as the code has it. A tasks/resubscribe request for a task with no registered
  stream is answered with a JSON-RPC error response whose code is -32603, an internal
  error: so for the outcome of \<open>on_resubscribe_to_task\<close> once the server has dealt
  with it, and so for the request body sent to \<open>_process_request\<close>. The state is left
  as it was, and the request is answered: neither a crash nor a hang.
\<close>

theorem resubscribe_to_unknown_task_is_internal_error:
  "(map_of (task_sse_subscribers s) (trr_task_id request) = None \<longrightarrow>
      is_internal_error_reply (finish_request (fst (on_resubscribe_to_task request s)))
      \<and> snd (on_resubscribe_to_task request s) = s)
   \<and> (read_method body = Inr (JStr ''tasks/resubscribe'') \<longrightarrow>
      is_internal_error_reply (fst (process_request ev (Decoded body) s))
      \<and> snd (process_request ev (Decoded body) s) = s)"
proof (rule conjI; rule impI)
  assume "map_of (task_sse_subscribers s) (trr_task_id request) = None"
  from on_resubscribe_unknown [OF this]
  show "is_internal_error_reply (finish_request (fst (on_resubscribe_to_task request s)))
      \<and> snd (on_resubscribe_to_task request s) = s"
    by (simp add: finish_request_def is_internal_error_reply_def)
next
  assume "read_method body = Inr (JStr ''tasks/resubscribe'')"
  from process_request_other_method [OF this, of ev s]
  show "is_internal_error_reply (fst (process_request ev (Decoded body) s))
      \<and> snd (process_request ev (Decoded body) s) = s"
    by (simp add: is_internal_error_reply_def internal_error_response_def)
qed

theorem resubscribe_to_unknown_task_is_internal_error_witness:
  "is_internal_error_reply (finish_request (fst (on_resubscribe_to_task resubscribe_never s0)))
   \<and> snd (on_resubscribe_to_task resubscribe_never s0) = s0
   \<and> is_internal_error_reply (fst (process_request env0 (Decoded body_resubscribe) s0))
   \<and> snd (process_request env0 (Decoded body_resubscribe) s0) = s0"
proof -
  have a: "map_of (task_sse_subscribers s0) (trr_task_id resubscribe_never) = None"
    by (simp add: s0_def)
  from resubscribe_to_unknown_task_is_internal_error
         [of s0 resubscribe_never body_resubscribe env0] a read_method_resubscribe
  show ?thesis by simp
qed

text \<open>C8 as stated fails for the id \<open>never-created\<close>: the error is the internal error
  (code -32603, message "Internal server error"), not task-not-found (code -32001).\<close>

theorem resubscribe_answer_is_not_task_not_found:
  "fst (process_request env0 (Decoded body_resubscribe) s0)
     = JSONResponse internal_error_response 400
   \<and> map_option code (error internal_error_response) = Some (- 32603)
   \<and> fst (on_resubscribe_to_task resubscribe_never s0)
       = Inl (TypeError ''__init__() got an unexpected keyword argument'')
   \<and> finish_request (Inl (TypeError ''__init__() got an unexpected keyword argument''))
       = JSONResponse internal_error_response 400"
proof -
  have a: "map_of (task_sse_subscribers s0) (trr_task_id resubscribe_never) = None"
    by (simp add: s0_def)
  have b: "JStr ''tasks/resubscribe'' \<noteq> JStr ''message/send''" by simp
  show ?thesis
    using process_request_other_method [OF read_method_resubscribe b, of env0 s0]
      on_resubscribe_unknown [OF a]
    by (simp add: internal_error_response_def finish_request_def)
qed

text \<open>
  C9, as the code has it. A tasks/send request that is not accepted (rejected by
  \<open>_validate_request\<close>, or its push-notification URL fails verification) leaves the
  manager's state, journal included, exactly as it was: no task is created or changed and
  the agent is not called; what comes back is an error. A request that is accepted but
  whose first part is not text is rejected by \<open>_get_user_query\<close> before the agent is
  called, yet after the task has been upserted and set to WORKING.
\<close>

theorem rejected_send_changes_nothing:
  "(\<not> accepted ev request \<longrightarrow>
      snd (on_send_task ev request s) = s
      \<and> (\<forall>resp. fst (on_send_task ev request s) = Inr resp
             \<longrightarrow> result resp = None \<and> error resp \<noteq> None))
   \<and> (accepted ev request \<and> get_user_query (str_params request) = Inl e \<longrightarrow>
      fst (on_send_task ev request s) = Inl e
      \<and> (\<exists>t. map_of (tasks (snd (on_send_task ev request s))) (tsp_id (str_params request)) = Some t
             \<and> state (task_status t) = WORKING)
      \<and> journal (snd (on_send_task ev request s))
          = journal s @ [Upserted (tsp_id (str_params request)),
                         StatusWritten (tsp_id (str_params request)) WORKING])"
proof (rule conjI; rule impI)
  assume "\<not> accepted ev request"
  then show "snd (on_send_task ev request s) = s
      \<and> (\<forall>resp. fst (on_send_task ev request s) = Inr resp
             \<longrightarrow> result resp = None \<and> error resp \<noteq> None)"
    by (rule on_send_task_not_accepted)
next
  assume a: "accepted ev request \<and> get_user_query (str_params request) = Inl e"
  from a on_send_task_accepted [of ev request s] obtain s1 where
    s1: "on_send_task ev request s = run_send_task ev request s1" "journal s1 = journal s"
    by blast
  from a have q: "get_user_query (str_params request) = Inl e" by simp
  from run_send_task_query_fails [OF q, of ev s1] s1
  show "fst (on_send_task ev request s) = Inl e
      \<and> (\<exists>t. map_of (tasks (snd (on_send_task ev request s))) (tsp_id (str_params request)) = Some t
             \<and> state (task_status t) = WORKING)
      \<and> journal (snd (on_send_task ev request s))
          = journal s @ [Upserted (tsp_id (str_params request)),
                         StatusWritten (tsp_id (str_params request)) WORKING]"
    by simp
qed

theorem rejected_send_changes_nothing_witness:
  "snd (on_send_task env0 send_push s0) = s0
   \<and> fst (on_send_task env0 send_file s0) = Inl (ValueError ''Only text parts are supported'')
   \<and> journal (snd (on_send_task env0 send_file s0))
       = [Upserted ''T1'', StatusWritten ''T1'' WORKING]"
proof -
  have a: "\<not> accepted env0 send_push"
    by (simp add: accepted_def validate_request_def env0_def send_push_def send_T1_def)
  have b: "accepted env0 send_file"
    by (simp add: accepted_def validate_request_def env0_def send_file_def send_T1_def)
  have c: "get_user_query (str_params send_file) = Inl (ValueError ''Only text parts are supported'')"
    by (simp add: get_user_query_def send_file_def send_T1_def)
  have z: "journal s0 = []" "tsp_id (str_params send_file) = ''T1''"
    by (simp_all add: s0_def send_file_def send_T1_def)
  from rejected_send_changes_nothing [of env0 send_push s0] a
  have one: "snd (on_send_task env0 send_push s0) = s0" by simp
  from rejected_send_changes_nothing
         [of env0 send_file s0 "ValueError ''Only text parts are supported''"] b c z
  have two: "fst (on_send_task env0 send_file s0) = Inl (ValueError ''Only text parts are supported'')
   \<and> journal (snd (on_send_task env0 send_file s0))
       = [Upserted ''T1'', StatusWritten ''T1'' WORKING]"
    by simp
  from one two show ?thesis by simp
qed

text \<open>C9 as stated fails for a request whose first part is a file: the request is
  rejected, and the store, empty before, holds task \<open>T1\<close> in state WORKING.\<close>

theorem non_text_part_rejected_after_task_is_working:
  "tasks s0 = []
   \<and> fst (on_send_task env0 send_file s0) = Inl (ValueError ''Only text parts are supported'')
   \<and> map_option (\<lambda>t. state (task_status t))
        (map_of (tasks (snd (on_send_task env0 send_file s0))) ''T1'') = Some WORKING"
  by (simp add: on_send_task_def run_send_task_def validate_request_def upsert_task_def
        update_store_def send_task_notification_def has_push_notification_info_def
        get_push_notification_info_def get_user_query_def
        env0_def send_file_def send_T1_def s0_def Let_def)

text \<open>
  C10. \<open>on_a2a_message_send\<close> calls the agent's \<open>invoke_async\<close> with the in-order
  concatenation of the text fields of the message's parts of kind text; file and data
  parts add nothing. The answer is built from what \<open>invoke_async\<close> gives at that
  query: a FAILED task carrying the exception's message when it raises, a task carrying
  the returned content when it returns. The handler consults the agent at that query and
  session only: an agent that agrees there gives the same outcome. The journal records
  the one call. For a request body that the server parses, the query is the concatenation
  of the text fields of the body's parts of kind text, and the reply is what the handler
  gives for the parsed request.
\<close>

theorem message_send_query_is_text_concatenation:
  "(invoke_async ev (concat_text_parts (a2a_parts (msr_message request)))
        (message_send_session ev request s) = AgentRaises m \<longrightarrow>
      (\<exists>t. fst (on_a2a_message_send ev request s)
              = Inr \<lparr>rsp_id = msr_id request, result = Some (ResultA2ATask t), error = None\<rparr>
           \<and> state (task_status t) = FAILED
           \<and> status_message (task_status t)
               = Some (LegacyMessage
                    \<lparr>msg_role = RoleAgent, msg_parts = [TextPart (''Error: '' @ m)]\<rparr>)))
   \<and> (invoke_async ev (concat_text_parts (a2a_parts (msr_message request)))
        (message_send_session ev request s) = AgentReturns resp \<longrightarrow>
      (\<exists>t. fst (on_a2a_message_send ev request s)
              = Inr \<lparr>rsp_id = msr_id request, result = Some (ResultA2ATask t), error = None\<rparr>
           \<and> (if is_task_complete resp = Some True
               then state (task_status t) = COMPLETED
                  \<and> (\<exists>a. artifacts t = Some [a]
                       \<and> art_parts a
                           = [A2ATextPart (case content resp of None \<Rightarrow> ''Task completed''
                                            | Some c \<Rightarrow> c) (Some ''text/plain'')])
               else task_status t
                      = \<lparr>state = INPUT_REQUIRED,
                         status_message = Some (LegacyMessage
                            \<lparr>msg_role = RoleAgent,
                             msg_parts = [TextPart (case content resp of None \<Rightarrow> ''Task in progress''
                                                    | Some c \<Rightarrow> c)]\<rparr>)\<rparr>
                  \<and> artifacts t = None)))
   \<and> (uuid4 ev' = uuid4 ev
       \<and> invoke_async ev' (concat_text_parts (a2a_parts (msr_message request)))
             (message_send_session ev request s)
           = invoke_async ev (concat_text_parts (a2a_parts (msr_message request)))
               (message_send_session ev request s) \<longrightarrow>
      on_a2a_message_send ev' request s = on_a2a_message_send ev request s)
   \<and> journal (snd (on_a2a_message_send ev request s))
       = journal s @ [AgentInvoked (concat_text_parts (a2a_parts (msr_message request)))
                        (message_send_session ev request s)]
   \<and> (read_method body = Inr (JStr ''message/send'') \<and> parse_message_send body = Inr req \<longrightarrow>
       concat_text_parts (a2a_parts (msr_message req))
         = concat (map json_part_text (message_parts_json body))
       \<and> process_request ev (Decoded body) s
           = (case on_a2a_message_send ev req s of
                (Inl e, s1) \<Rightarrow> (handle_exception e, s1)
              | (Inr r, s1) \<Rightarrow> (JSONResponse r 200, s1)))"
proof (intro conjI)
  show "invoke_async ev (concat_text_parts (a2a_parts (msr_message request)))
        (message_send_session ev request s) = AgentRaises m \<longrightarrow>
      (\<exists>t. fst (on_a2a_message_send ev request s)
              = Inr \<lparr>rsp_id = msr_id request, result = Some (ResultA2ATask t), error = None\<rparr>
           \<and> state (task_status t) = FAILED
           \<and> status_message (task_status t)
               = Some (LegacyMessage
                    \<lparr>msg_role = RoleAgent, msg_parts = [TextPart (''Error: '' @ m)]\<rparr>))"
    using on_a2a_message_send_agent_raises [of ev request s m] by blast
next
  show "invoke_async ev (concat_text_parts (a2a_parts (msr_message request)))
        (message_send_session ev request s) = AgentReturns resp \<longrightarrow>
      (\<exists>t. fst (on_a2a_message_send ev request s)
              = Inr \<lparr>rsp_id = msr_id request, result = Some (ResultA2ATask t), error = None\<rparr>
           \<and> (if is_task_complete resp = Some True
               then state (task_status t) = COMPLETED
                  \<and> (\<exists>a. artifacts t = Some [a]
                       \<and> art_parts a
                           = [A2ATextPart (case content resp of None \<Rightarrow> ''Task completed''
                                            | Some c \<Rightarrow> c) (Some ''text/plain'')])
               else task_status t
                      = \<lparr>state = INPUT_REQUIRED,
                         status_message = Some (LegacyMessage
                            \<lparr>msg_role = RoleAgent,
                             msg_parts = [TextPart (case content resp of None \<Rightarrow> ''Task in progress''
                                                    | Some c \<Rightarrow> c)]\<rparr>)\<rparr>
                  \<and> artifacts t = None))"
    using on_a2a_message_send_agent_returns [of ev request s resp] by blast
next
  show "uuid4 ev' = uuid4 ev
       \<and> invoke_async ev' (concat_text_parts (a2a_parts (msr_message request)))
             (message_send_session ev request s)
           = invoke_async ev (concat_text_parts (a2a_parts (msr_message request)))
               (message_send_session ev request s) \<longrightarrow>
      on_a2a_message_send ev' request s = on_a2a_message_send ev request s"
    using on_a2a_message_send_depends_on_one_call [of ev' ev request s] by blast
next
  show "journal (snd (on_a2a_message_send ev request s))
       = journal s @ [AgentInvoked (concat_text_parts (a2a_parts (msr_message request)))
                        (message_send_session ev request s)]"
    by (auto simp: on_a2a_message_send_def message_send_session_def message_send_failed_def
          Let_def extract_text_eq or_uuid_def draw_uuid_def
        split: prod.splits agent_outcome.splits option.splits)
next
  show "read_method body = Inr (JStr ''message/send'') \<and> parse_message_send body = Inr req \<longrightarrow>
       concat_text_parts (a2a_parts (msr_message req))
         = concat (map json_part_text (message_parts_json body))
       \<and> process_request ev (Decoded body) s
           = (case on_a2a_message_send ev req s of
                (Inl e, s1) \<Rightarrow> (handle_exception e, s1)
              | (Inr r, s1) \<Rightarrow> (JSONResponse r 200, s1))"
    using parse_message_send_parts [of body req] process_request_message_send [of body req ev s]
    by blast
qed

theorem message_send_query_is_text_concatenation_witness:
  "(\<exists>t a. fst (on_a2a_message_send env_echo msg_M1 s0)
              = Inr \<lparr>rsp_id = Some (IdStr ''r1''), result = Some (ResultA2ATask t), error = None\<rparr>
          \<and> artifacts t = Some [a]
          \<and> art_parts a = [A2ATextPart ''Hello'' (Some ''text/plain'')])
   \<and> (\<exists>t. fst (on_a2a_message_send env_raise msg_M1 s0)
              = Inr \<lparr>rsp_id = Some (IdStr ''r1''), result = Some (ResultA2ATask t), error = None\<rparr>
          \<and> state (task_status t) = FAILED)
   \<and> on_a2a_message_send (env_echo\<lparr>SUPPORTED_CONTENT_TYPES := []\<rparr>) msg_M1 s0
       = on_a2a_message_send env_echo msg_M1 s0
   \<and> journal (snd (on_a2a_message_send env_echo msg_M1 s0)) = [AgentInvoked ''Hello'' ''C1'']
   \<and> concat (map json_part_text (message_parts_json body_message_send)) = ''Hello''
   \<and> fst (process_request env_echo (Decoded body_message_send) s0)
       = JSONResponse
           \<lparr>rsp_id = Some (IdInt 7),
            result = Some (ResultA2ATask
              \<lparr>task_id = ''0a0a0a0a0a0a0a0a'', task_contextId = ''1b1b1b1b1b1b1b1b'',
               task_status = \<lparr>state = COMPLETED, status_message = None\<rparr>,
               artifacts = Some [\<lparr>artifactId = ''1b1b1b1b1b1b1b1b'',
                                  art_parts = [A2ATextPart ''Hello'' (Some ''text/plain'')],
                                  art_append = None, lastChunk = None\<rparr>],
               history = None\<rparr>),
            error = None\<rparr> 200"
proof -
  let ?req = "\<lparr>msr_id = Some (IdInt 7),
            msr_message = \<lparr>a2a_role = RoleUser,
               a2a_parts = [A2ATextPart ''Hello'' (Some ''text/plain'')],
               messageId = ''m1'', taskId = None, contextId = None\<rparr>\<rparr>"
  let ?echo = "\<lparr>is_task_complete = Some True, require_user_input = Some False,
                content = Some ''Hello''\<rparr>"
  have q: "concat_text_parts (a2a_parts (msr_message msg_M1)) = ''Hello''"
    by (simp add: concat_text_parts_def msg_M1_def)
  have sid: "message_send_session env_echo msg_M1 s0 = ''C1''"
    "message_send_session env_raise msg_M1 s0 = ''C1''"
    by (simp_all add: message_send_session_def or_uuid_def msg_M1_def)
  have a: "invoke_async env_echo ''Hello'' ''C1'' = AgentReturns ?echo"
    by (simp add: env_echo_def)
  have b: "invoke_async env_raise ''Hello'' ''C1'' = AgentRaises ''boom''"
    by (simp add: env_raise_def)
  have u: "uuid4 (env_echo\<lparr>SUPPORTED_CONTENT_TYPES := []\<rparr>) = uuid4 env_echo"
    "invoke_async (env_echo\<lparr>SUPPORTED_CONTENT_TYPES := []\<rparr>) ''Hello'' ''C1''
       = invoke_async env_echo ''Hello'' ''C1''"
    by simp_all
  have i: "msr_id msg_M1 = Some (IdStr ''r1'')" "journal s0 = []"
    by (simp_all add: msg_M1_def s0_def)
  have srv: "on_a2a_message_send env_echo ?req s0
       = (Inr \<lparr>rsp_id = Some (IdInt 7),
            result = Some (ResultA2ATask
              \<lparr>task_id = ''0a0a0a0a0a0a0a0a'', task_contextId = ''1b1b1b1b1b1b1b1b'',
               task_status = \<lparr>state = COMPLETED, status_message = None\<rparr>,
               artifacts = Some [\<lparr>artifactId = ''1b1b1b1b1b1b1b1b'',
                                  art_parts = [A2ATextPart ''Hello'' (Some ''text/plain'')],
                                  art_append = None, lastChunk = None\<rparr>],
               history = None\<rparr>),
            error = None\<rparr>, s0\<lparr>uuid_count := 3,
               journal := [AgentInvoked ''Hello'' ''1b1b1b1b1b1b1b1b'']\<rparr>)"
    by (simp add: on_a2a_message_send_def extract_text_def or_uuid_def draw_uuid_def Let_def
          env_echo_def env0_def s0_def)
  note T = message_send_query_is_text_concatenation
         [of env_echo msg_M1 s0 "''boom''" ?echo "env_echo\<lparr>SUPPORTED_CONTENT_TYPES := []\<rparr>"
             body_message_send ?req, unfolded q sid]
  from T a have "\<exists>t. fst (on_a2a_message_send env_echo msg_M1 s0)
              = Inr \<lparr>rsp_id = msr_id msg_M1, result = Some (ResultA2ATask t), error = None\<rparr>
           \<and> (if is_task_complete ?echo = Some True
               then state (task_status t) = COMPLETED
                  \<and> (\<exists>a. artifacts t = Some [a]
                       \<and> art_parts a
                           = [A2ATextPart (case content ?echo of None \<Rightarrow> ''Task completed''
                                            | Some c \<Rightarrow> c) (Some ''text/plain'')])
               else task_status t
                      = \<lparr>state = INPUT_REQUIRED,
                         status_message = Some (LegacyMessage
                            \<lparr>msg_role = RoleAgent,
                             msg_parts = [TextPart (case content ?echo of None \<Rightarrow> ''Task in progress''
                                                    | Some c \<Rightarrow> c)]\<rparr>)\<rparr>
                  \<and> artifacts t = None)"
    by blast
  then have c1: "\<exists>t a. fst (on_a2a_message_send env_echo msg_M1 s0)
              = Inr \<lparr>rsp_id = Some (IdStr ''r1''), result = Some (ResultA2ATask t), error = None\<rparr>
          \<and> artifacts t = Some [a]
          \<and> art_parts a = [A2ATextPart ''Hello'' (Some ''text/plain'')]"
    by (simp add: i) blast
  from T u have c3: "on_a2a_message_send (env_echo\<lparr>SUPPORTED_CONTENT_TYPES := []\<rparr>) msg_M1 s0
       = on_a2a_message_send env_echo msg_M1 s0"
    by blast
  from T have "journal (snd (on_a2a_message_send env_echo msg_M1 s0))
       = journal s0 @ [AgentInvoked ''Hello'' ''C1'']"
    by blast
  then have c4: "journal (snd (on_a2a_message_send env_echo msg_M1 s0))
       = [AgentInvoked ''Hello'' ''C1'']"
    by (simp add: i)
  from T read_method_message_send parse_body_message_send
  have c5: "concat_text_parts (a2a_parts (msr_message ?req))
         = concat (map json_part_text (message_parts_json body_message_send))
       \<and> process_request env_echo (Decoded body_message_send) s0
           = (case on_a2a_message_send env_echo ?req s0 of
                (Inl e, s1) \<Rightarrow> (handle_exception e, s1)
              | (Inr r, s1) \<Rightarrow> (JSONResponse r 200, s1))"
    by blast
  from c5 have c6: "concat (map json_part_text (message_parts_json body_message_send)) = ''Hello''"
    by (simp add: concat_text_parts_def)
  from c5 srv have c7: "fst (process_request env_echo (Decoded body_message_send) s0)
       = JSONResponse
           \<lparr>rsp_id = Some (IdInt 7),
            result = Some (ResultA2ATask
              \<lparr>task_id = ''0a0a0a0a0a0a0a0a'', task_contextId = ''1b1b1b1b1b1b1b1b'',
               task_status = \<lparr>state = COMPLETED, status_message = None\<rparr>,
               artifacts = Some [\<lparr>artifactId = ''1b1b1b1b1b1b1b1b'',
                                  art_parts = [A2ATextPart ''Hello'' (Some ''text/plain'')],
                                  art_append = None, lastChunk = None\<rparr>],
               history = None\<rparr>),
            error = None\<rparr> 200"
    by simp
  note R = message_send_query_is_text_concatenation
         [of env_raise msg_M1 s0 "''boom''" ?echo env_raise body_message_send ?req,
          unfolded q sid]
  from R b have "\<exists>t. fst (on_a2a_message_send env_raise msg_M1 s0)
              = Inr \<lparr>rsp_id = msr_id msg_M1, result = Some (ResultA2ATask t), error = None\<rparr>
           \<and> state (task_status t) = FAILED
           \<and> status_message (task_status t)
               = Some (LegacyMessage
                    \<lparr>msg_role = RoleAgent, msg_parts = [TextPart (''Error: '' @ ''boom'')]\<rparr>)"
    by blast
  then have c2: "\<exists>t. fst (on_a2a_message_send env_raise msg_M1 s0)
              = Inr \<lparr>rsp_id = Some (IdStr ''r1''), result = Some (ResultA2ATask t), error = None\<rparr>
          \<and> state (task_status t) = FAILED"
    by (simp add: i) blast
  from c1 c2 c3 c4 c6 c7 show ?thesis by blast
qed

end
